theory Spec2Isabelle
  imports Main "HOL-Library.Multiset"
begin

section \<open>Python values\<close>

text \<open>
  A Python \<open>str\<close> is a sequence of Unicode code points; slicing, \<open>strip\<close> and
  \<open>startswith\<close> all count code points. It is modelled as a list of code points.
  \<open>asc\<close> writes an ASCII literal.
\<close>

type_synonym pystr = "nat list"

definition asc :: "string \<Rightarrow> pystr" where
  "asc s = map of_char s"

text \<open>
  \<open>str.isspace\<close> for one code point: the characters Python's \<open>strip()\<close> removes
  (U+0009..U+000D, U+001C..U+0020, U+0085, U+00A0, U+1680, U+2000..U+200A, U+2028,
  U+2029, U+202F, U+205F, U+3000).
\<close>

definition isspace :: "nat \<Rightarrow> bool" where
  "isspace c \<longleftrightarrow>
     (9 \<le> c \<and> c \<le> 13) \<or> (28 \<le> c \<and> c \<le> 32) \<or> c = 133 \<or> c = 160 \<or> c = 5760 \<or>
     (8192 \<le> c \<and> c \<le> 8202) \<or> c = 8232 \<or> c = 8233 \<or> c = 8239 \<or> c = 8287 \<or> c = 12288"

definition lstrip :: "pystr \<Rightarrow> pystr" where
  "lstrip s = dropWhile isspace s"

definition rstrip :: "pystr \<Rightarrow> pystr" where
  "rstrip s = rev (dropWhile isspace (rev s))"

definition strip :: "pystr \<Rightarrow> pystr" where
  "strip s = rstrip (lstrip s)"

text \<open>\<open>s.startswith(p)\<close>.\<close>

fun startswith :: "pystr \<Rightarrow> pystr \<Rightarrow> bool" where
  "startswith s [] = True"
| "startswith [] (p # ps) = False"
| "startswith (c # s) (p # ps) = (c = p \<and> startswith s ps)"

text \<open>\<open>sep.join(xs)\<close>.\<close>

fun join :: "pystr \<Rightarrow> pystr list \<Rightarrow> pystr" where
  "join sep [] = []"
| "join sep [x] = x"
| "join sep (x # y # ys) = x @ sep @ join sep (y # ys)"

text \<open>
  Values that \<open>json.load\<close> produces and that a payload of type \<open>Dict[str, Any]\<close> holds.
  A \<open>dict\<close> is an association list in insertion order with \<open>map_of\<close> as lookup.
  Floating-point numbers are left out.
\<close>

datatype jval =
    JNone
  | JBool bool
  | JInt int
  | JStr pystr
  | JList "jval list"
  | JDict "(pystr \<times> jval) list"

type_synonym pydict = "(pystr \<times> jval) list"

text \<open>Exceptions, by class, with the text of \<open>str(e)\<close>.\<close>

datatype exn =
    FileNotFoundError pystr
  | PermissionError pystr
  | OSError pystr
  | TimeoutExpired pystr
  | ImportError pystr
  | KeyError pystr
  | IndexError pystr
  | AttributeError pystr
  | TypeError pystr
  | CsvError pystr
  | OtherException pystr

fun str_exn :: "exn \<Rightarrow> pystr" where
  "str_exn (FileNotFoundError m) = m"
| "str_exn (PermissionError m) = m"
| "str_exn (OSError m) = m"
| "str_exn (TimeoutExpired m) = m"
| "str_exn (ImportError m) = m"
| "str_exn (KeyError m) = m"
| "str_exn (IndexError m) = m"
| "str_exn (AttributeError m) = m"
| "str_exn (TypeError m) = m"
| "str_exn (CsvError m) = m"
| "str_exn (OtherException m) = m"

section \<open>The configuration document on disk\<close>

text \<open>
  \<open>config.json\<close> is absent, unparsable, or holds one JSON value. The file is written
  with \<open>open(path, "w", encoding="utf-8")\<close> and \<open>json.dump(..., ensure_ascii=False)\<close>:
  the write fails at \<open>open\<close> (the file is untouched), or inside \<open>json.dump\<close> (the file
  is left truncated, which no longer parses), or succeeds. Every caller in the source
  swallows the exception. \<open>write_attempts\<close> counts the calls.
\<close>

datatype cfg_file = Absent | Malformed | Doc jval

text \<open>What the machine does to a write, apart from what the data does to it.\<close>

datatype io_outcome = IoOk | OpenFails | DumpFails

record disk =
  content :: cfg_file
  write_attempts :: nat

text \<open>
  The UTF-8 encoder of the file refuses a surrogate code point (U+D800 to U+DFFF), which
  a Python string can hold: \<open>json.dump\<close> then raises \<open>UnicodeEncodeError\<close> in the middle
  of the document. A value can be written when none of its strings, keys included,
  holds one.
\<close>

definition encodable_str :: "pystr \<Rightarrow> bool" where
  "encodable_str s = list_all (\<lambda>c. c < 0xD800 \<or> 0xDFFF < c) s"

primrec encodable :: "jval \<Rightarrow> bool" where
  "encodable JNone = True"
| "encodable (JBool b) = True"
| "encodable (JInt i) = True"
| "encodable (JStr s) = encodable_str s"
| "encodable (JList xs) = list_all (\<lambda>b. b) (map encodable xs)"
| "encodable (JDict d) =
     list_all (\<lambda>kb. encodable_str (fst kb) \<and> snd kb) (map (map_prod (\<lambda>k. k) encodable) d)"

definition write_json :: "io_outcome \<Rightarrow> jval \<Rightarrow> disk \<Rightarrow> disk" where
  "write_json io d fs =
     (case io of
        IoOk \<Rightarrow>
          if encodable d then \<lparr>content = Doc d, write_attempts = Suc (write_attempts fs)\<rparr>
          else \<lparr>content = Malformed, write_attempts = Suc (write_attempts fs)\<rparr>
      | OpenFails \<Rightarrow> fs\<lparr>write_attempts := Suc (write_attempts fs)\<rparr>
      | DumpFails \<Rightarrow> \<lparr>content = Malformed, write_attempts = Suc (write_attempts fs)\<rparr>)"

section \<open>SavedPromptsManager\<close>

text \<open>
  One entry of \<open>_data["manual_prompts"]\<close>: the four-key dict
  \<open>{text, note, created, updated}\<close> that \<open>add_or_update_prompt\<close> appends.
\<close>

record saved_prompt =
  p_text :: pystr
  p_note :: pystr
  p_created :: pystr
  p_updated :: pystr

text \<open>
  The manager: \<open>_data["manual_prompts"]\<close>, the other keys of \<open>_data\<close> (loaded from the
  file and written back by \<open>_save\<close>), and the file at \<open>cfg_path\<close>.
\<close>

record manager =
  manual_prompts :: "saved_prompt list"
  other_keys :: pydict
  cfg :: disk

definition prompt_json :: "saved_prompt \<Rightarrow> jval" where
  "prompt_json p =
     JDict [(asc ''text'', JStr (p_text p)), (asc ''note'', JStr (p_note p)),
            (asc ''created'', JStr (p_created p)), (asc ''updated'', JStr (p_updated p))]"

definition data_json :: "manager \<Rightarrow> pydict" where
  "data_json m = (asc ''manual_prompts'', JList (map prompt_json (manual_prompts m))) # other_keys m"

text \<open>\<open>_save\<close>: dump \<open>_data\<close>; any exception is swallowed.\<close>

definition save :: "io_outcome \<Rightarrow> manager \<Rightarrow> manager" where
  "save io m = m\<lparr>cfg := write_json io (JDict (data_json m)) (cfg m)\<rparr>"

text \<open>
  What one call of \<open>add_or_update_prompt\<close> reads from its surroundings: the successive
  values of \<open>now_label()\<close> and the outcome of the write in \<open>_save\<close>.
\<close>

record save_env =
  now_first :: pystr
  now_second :: pystr
  save_io :: io_outcome

text \<open>
  \<open>next((p for p in prompts if p["text"] == text), None)\<close>: the position of the first
  record with that text.
\<close>

fun find_existing :: "pystr \<Rightarrow> saved_prompt list \<Rightarrow> nat option" where
  "find_existing t [] = None"
| "find_existing t (p # ps) =
     (if p_text p = t then Some 0
      else (case find_existing t ps of None \<Rightarrow> None | Some i \<Rightarrow> Some (Suc i)))"

definition add_or_update_prompt :: "save_env \<Rightarrow> pystr \<Rightarrow> pystr \<Rightarrow> manager \<Rightarrow> manager" where
  "add_or_update_prompt env text0 note0 m =
     (let t = strip text0 in
      if t = [] then m
      else
        let ps = manual_prompts m;
            ps' = (case find_existing t ps of
                     Some i \<Rightarrow> ps[i := (ps ! i)\<lparr>p_updated := now_first env, p_note := strip note0\<rparr>]
                   | None \<Rightarrow> ps @ [\<lparr>p_text = t, p_note = strip note0,
                                     p_created = now_first env, p_updated = now_second env\<rparr>])
        in save (save_io env) (m\<lparr>manual_prompts := ps'\<rparr>))"

text \<open>\<open>delete_prompt\<close>.\<close>

definition delete_prompt :: "io_outcome \<Rightarrow> pystr \<Rightarrow> manager \<Rightarrow> manager" where
  "delete_prompt io t m =
     save io (m\<lparr>manual_prompts := filter (\<lambda>p. p_text p \<noteq> t) (manual_prompts m)\<rparr>)"


section \<open>SiYuanHelper.get_document\<close>

text \<open>Python truthiness of a value (\<open>if v\<close>, \<open>v or d\<close>, \<open>not v\<close>).\<close>

fun truthy :: "jval \<Rightarrow> bool" where
  "truthy JNone = False"
| "truthy (JBool b) = b"
| "truthy (JInt i) = (i \<noteq> 0)"
| "truthy (JStr s) = (s \<noteq> [])"
| "truthy (JList xs) = (xs \<noteq> [])"
| "truthy (JDict d) = (d \<noteq> [])"

text \<open>\<open>v != 0\<close>: only the integer zero and \<open>False\<close> are equal to \<open>0\<close>.\<close>

fun differs_from_zero :: "jval \<Rightarrow> bool" where
  "differs_from_zero (JInt i) = (i \<noteq> 0)"
| "differs_from_zero (JBool b) = b"
| "differs_from_zero v = True"

text \<open>\<open>d.get(k)\<close> and \<open>d.get(k, default)\<close>.\<close>

definition dict_get :: "pydict \<Rightarrow> pystr \<Rightarrow> jval \<Rightarrow> jval" where
  "dict_get d k dflt = (case map_of d k of None \<Rightarrow> dflt | Some v \<Rightarrow> v)"

record siyuan_helper =
  api_base_url :: pystr
  api_token :: pystr
  timeout :: int

text \<open>
  What \<open>requests.post\<close> does: it raises (connection error, timeout), or it returns a
  response with a status code whose \<open>json()\<close> raises or yields a value.
\<close>

datatype http_outcome =
    RequestRaises exn
  | Response int "exn + jval"

type_synonym http_post = "pystr \<Rightarrow> (pystr \<times> pystr) list \<Rightarrow> pydict \<Rightarrow> int \<Rightarrow> http_outcome"

text \<open>The body of the \<open>try\<close> block of \<open>get_document\<close>.\<close>

definition get_document_try ::
  "http_post \<Rightarrow> siyuan_helper \<Rightarrow> pystr \<Rightarrow> exn + (jval \<times> jval)" where
  "get_document_try post h doc_id =
     (case post (api_base_url h @ asc ''/api/export/exportMdContent'')
             [(asc ''Authorization'', asc ''Token '' @ api_token h),
              (asc ''Content-Type'', asc ''application/json'')]
             [(asc ''id'', JStr doc_id)]
             (timeout h) of
        RequestRaises e \<Rightarrow> Inl e
      | Response status body \<Rightarrow>
          if status \<noteq> 200 then Inr (JNone, JNone)
          else (case body of
                  Inl e \<Rightarrow> Inl e
                | Inr (JDict j) \<Rightarrow>
                    if differs_from_zero (dict_get j (asc ''code'') JNone) then Inr (JNone, JNone)
                    else (case dict_get j (asc ''data'') (JDict []) of
                            JDict data \<Rightarrow>
                              Inr (let hp = dict_get data (asc ''hPath'') JNone
                                   in if truthy hp then hp else JStr doc_id,
                                   dict_get data (asc ''content'') (JStr []))
                          | _ \<Rightarrow> Inr (JNone, JNone))
                | Inr _ \<Rightarrow> Inl (AttributeError (asc ''get''))))"

text \<open>\<open>get_document\<close>: the configuration check, then the \<open>try\<close> with \<open>except Exception\<close>.\<close>

definition get_document ::
  "http_post \<Rightarrow> siyuan_helper \<Rightarrow> pystr \<Rightarrow> exn + (jval \<times> jval)" where
  "get_document post h doc_id =
     (if api_base_url h = [] \<or> api_token h = [] then Inr (JNone, JNone)
      else (case get_document_try post h doc_id of
              Inl e \<Rightarrow> Inr (JNone, JNone)
            | Inr r \<Rightarrow> Inr r))"

section \<open>DataItem\<close>

text \<open>Sequencing of computations that may raise.\<close>

definition bind_exn :: "exn + 'a \<Rightarrow> ('a \<Rightarrow> exn + 'b) \<Rightarrow> exn + 'b" where
  "bind_exn m f = (case m of Inl e \<Rightarrow> Inl e | Inr x \<Rightarrow> f x)"

text \<open>
  A \<open>DataItem\<close>. Its fields are whatever \<open>from_dict\<close> puts there: the dataclass does
  not check the annotations \<open>kind: str\<close>, \<open>payload: Dict[str, Any]\<close>, \<open>_id: str\<close>.
\<close>

record data_item =
  kind :: jval
  payload :: jval
  item_id :: jval

definition to_dict :: "data_item \<Rightarrow> pydict" where
  "to_dict it = [(asc ''kind'', kind it), (asc ''payload'', payload it), (asc ''_id'', item_id it)]"

text \<open>\<open>d[k]\<close> for a value \<open>d\<close> and a string key.\<close>

definition subscript :: "jval \<Rightarrow> pystr \<Rightarrow> exn + jval" where
  "subscript d k =
     (case d of
        JDict al \<Rightarrow> (case map_of al k of None \<Rightarrow> Inl (KeyError k) | Some v \<Rightarrow> Inr v)
      | _ \<Rightarrow> Inl (TypeError (asc ''subscript'')))"

definition from_dict :: "jval \<Rightarrow> exn + data_item" where
  "from_dict d =
     bind_exn (subscript d (asc ''kind'')) (\<lambda>k.
     bind_exn (subscript d (asc ''payload'')) (\<lambda>p.
     bind_exn (subscript d (asc ''_id'')) (\<lambda>i.
       Inr \<lparr>kind = k, payload = p, item_id = i\<rparr>)))"

text \<open>\<open>v.get(k, default)\<close> on a value that should be a dict.\<close>

definition payload_get :: "jval \<Rightarrow> pystr \<Rightarrow> jval \<Rightarrow> exn + jval" where
  "payload_get p k dflt =
     (case p of JDict d \<Rightarrow> Inr (dict_get d k dflt) | _ \<Rightarrow> Inl (AttributeError (asc ''get'')))"

text \<open>\<open>v.strip()\<close> on a value that should be a string.\<close>

definition val_strip :: "jval \<Rightarrow> exn + pystr" where
  "val_strip v = (case v of JStr s \<Rightarrow> Inr (strip s) | _ \<Rightarrow> Inl (AttributeError (asc ''strip'')))"

text \<open>
  \<open>os.path.basename\<close> (POSIX: the part after the last \<open>/\<close>); a value that is not a
  string raises \<open>TypeError\<close>.
\<close>

definition path_basename :: "pystr \<Rightarrow> pystr" where
  "path_basename p = rev (takeWhile (\<lambda>c. c \<noteq> 47) (rev p))"

definition basename :: "jval \<Rightarrow> exn + pystr" where
  "basename v = (case v of JStr s \<Rightarrow> Inr (path_basename s) | _ \<Rightarrow> Inl (TypeError (asc ''fspath'')))"

text \<open>\<open>len(v)\<close> and iteration over \<open>v\<close>.\<close>

definition py_len :: "jval \<Rightarrow> exn + nat" where
  "py_len v =
     (case v of
        JList xs \<Rightarrow> Inr (length xs)
      | JStr s \<Rightarrow> Inr (length s)
      | JDict d \<Rightarrow> Inr (length d)
      | _ \<Rightarrow> Inl (TypeError (asc ''len'')))"

definition py_iter :: "jval \<Rightarrow> exn + jval list" where
  "py_iter v =
     (case v of
        JList xs \<Rightarrow> Inr xs
      | JStr s \<Rightarrow> Inr (map (\<lambda>c. JStr [c]) s)
      | JDict d \<Rightarrow> Inr (map (\<lambda>kv. JStr (fst kv)) d)
      | _ \<Rightarrow> Inl (TypeError (asc ''iter'')))"

text \<open>Decimal digits of a number, as \<open>str(n)\<close> writes them.\<close>

fun show_nat :: "nat \<Rightarrow> pystr" where
  "show_nat n = (if n < 10 then [48 + n] else show_nat (n div 10) @ [48 + n mod 10])"

declare show_nat.simps [simp del]

definition show_int :: "int \<Rightarrow> pystr" where
  "show_int i = (if i < 0 then 45 # show_nat (nat (- i)) else show_nat (nat i))"

text \<open>\<open>f"{n:,}"\<close>: a comma between groups of three digits, counted from the right.\<close>

fun commas_rev :: "pystr \<Rightarrow> pystr" where
  "commas_rev (a # b # c # d # rest) = a # b # c # 44 # commas_rev (d # rest)"
| "commas_rev xs = xs"

definition show_int_commas :: "int \<Rightarrow> pystr" where
  "show_int_commas i =
     (if i < 0 then 45 # rev (commas_rev (rev (show_nat (nat (- i)))))
      else rev (commas_rev (rev (show_nat (nat i)))))"

text \<open>
  \<open>str(v)\<close>, as an f-string interpolates a value. What Python prints for a list or a
  dict is taken as the parameter \<open>fmt\<close>.
\<close>

definition py_str :: "(jval \<Rightarrow> pystr) \<Rightarrow> jval \<Rightarrow> pystr" where
  "py_str fmt v =
     (case v of
        JStr s \<Rightarrow> s
      | JNone \<Rightarrow> asc ''None''
      | JBool b \<Rightarrow> (if b then asc ''True'' else asc ''False'')
      | JInt i \<Rightarrow> show_int i
      | _ \<Rightarrow> fmt v)"

text \<open>The characters at which \<open>str.splitlines\<close> ends a line.\<close>

definition is_linebreak :: "nat \<Rightarrow> bool" where
  "is_linebreak c \<longleftrightarrow>
     (10 \<le> c \<and> c \<le> 13) \<or> (28 \<le> c \<and> c \<le> 30) \<or> c = 133 \<or> c = 8232 \<or> c = 8233"

text \<open>The literal opening bracket of a header.\<close>

definition s_lbracket :: pystr where
  "s_lbracket = [0x3010]"

text \<open>The literal closing bracket of a header, newline.\<close>

definition s_rbracket_nl :: pystr where
  "s_rbracket_nl = [0x3011, 10]"

text \<open>The literal header of an item without payload: invalid data item.\<close>

definition s_invalid_item :: pystr where
  "s_invalid_item = [0x3010, 0x65E0, 0x6548, 0x6570, 0x636E, 0x9879, 0x3011, 10]"

text \<open>The literal header of a manual prompt.\<close>

definition s_manual_header :: pystr where
  "s_manual_header = [0x3010, 0x624B, 0x52A8, 0x63D0, 0x793A, 0x8BCD, 0x3011, 10]"

text \<open>The literal header of an empty manual prompt.\<close>

definition s_manual_empty :: pystr where
  "s_manual_empty = [0x3010, 0x624B, 0x52A8, 0x63D0, 0x793A, 0x8BCD, 0xFF08, 0x7A7A, 0xFF09, 0x3011, 10]"

text \<open>The literal default file path: unknown file.\<close>

definition s_unknown_file :: pystr where
  "s_unknown_file = [0x672A, 0x77E5, 0x6587, 0x4EF6]"

text \<open>The literal empty-content marker closing a header.\<close>

definition s_empty_content_rbracket_nl :: pystr where
  "s_empty_content_rbracket_nl = [0xFF08, 0x7A7A, 0x5185, 0x5BB9, 0xFF09, 0x3011, 10]"

text \<open>The literal empty-content marker closing a sub-header.\<close>

definition s_empty_content_nl :: pystr where
  "s_empty_content_nl = [0xFF08, 0x7A7A, 0x5185, 0x5BB9, 0xFF09, 10]"

text \<open>The literal default title: untitled.\<close>

definition s_no_title :: pystr where
  "s_no_title = [0x65E0, 0x6807, 0x9898]"

text \<open>The literal default folder path: unknown folder.\<close>

definition s_unknown_folder :: pystr where
  "s_unknown_folder = [0x672A, 0x77E5, 0x6587, 0x4EF6, 0x5939]"

text \<open>The literal start of a folder header.\<close>

definition s_folder_header :: pystr where
  "s_folder_header = [0x3010, 0x6587, 0x4EF6, 0x5939, 0xFF1A]"

text \<open>The literal opening parenthesis before the file count.\<close>

definition s_folder_count_open :: pystr where
  "s_folder_count_open = [0xFF08]"

text \<open>The literal end of a folder header, after the file count.\<close>

definition s_folder_count_close :: pystr where
  "s_folder_count_close = [0x4E2A, 0x6587, 0x4EF6, 0xFF09, 0x3011, 10]"

text \<open>The literal start of a per-file sub-header.\<close>

definition s_file_branch :: pystr where
  "s_file_branch = asc ''  '' @ [0x251C, 0x2500] @ asc '' ''"

text \<open>The literal start of the header of an unknown kind.\<close>

definition s_unknown_kind :: pystr where
  "s_unknown_kind = [0x3010, 0x672A, 0x77E5, 0x7C7B, 0x578B, 0xFF1A]"

text \<open>The literal label prefix of a manual prompt.\<close>

definition s_label_manual :: pystr where
  "s_label_manual = [0x624B, 0x52A8, 0x63D0, 0x793A, 0x8BCD] @ asc '': ''"

text \<open>The literal label of an empty preview.\<close>

definition s_label_empty :: pystr where
  "s_label_empty = asc ''('' @ [0x7A7A] @ asc '')''"

text \<open>The literal default file path in a label.\<close>

definition s_label_file_default :: pystr where
  "s_label_file_default = [0x6587, 0x4EF6]"

text \<open>The literal label prefix of a text file.\<close>

definition s_label_file :: pystr where
  "s_label_file = [0x6587, 0x672C, 0x6587, 0x4EF6] @ asc '': ''"

text \<open>The literal label prefix of a remote document.\<close>

definition s_label_siyuan :: pystr where
  "s_label_siyuan = asc ''SiYuan'' @ [0x6587, 0x6863] @ asc '': ''"

text \<open>The literal label prefix of a remote document added by several ids.\<close>

definition s_label_siyuan_multi :: pystr where
  "s_label_siyuan_multi = asc ''SiYuan'' @ [0x6587, 0x6863] @ asc ''('' @ [0x591A] @ asc ''ID): ''"

text \<open>The literal label prefix of a folder.\<close>

definition s_label_folder :: pystr where
  "s_label_folder = [0x6587, 0x4EF6, 0x5939] @ asc '': ''"

text \<open>The literal label suffix after the file count.\<close>

definition s_label_files_suffix :: pystr where
  "s_label_files_suffix = asc '' '' @ [0x4E2A, 0x6587, 0x4EF6] @ asc '')''"

text \<open>The literal label prefix of an unknown kind.\<close>

definition s_label_unknown :: pystr where
  "s_label_unknown = [0x672A, 0x77E5, 0x7C7B, 0x578B] @ asc '': ''"

text \<open>\<open>_icon_for_kind\<close>: the colour of the icon; \<open>kind.startswith\<close> needs a string.\<close>

definition icon_for_kind :: "jval \<Rightarrow> exn + pystr" where
  "icon_for_kind k =
     (if k = JStr (asc ''manual'') then Inr (asc ''#3f8efc'')
      else if k = JStr (asc ''text_file'') then Inr (asc ''#4db6ac'')
      else (case k of
              JStr s \<Rightarrow>
                if startswith s (asc ''siyuan'') then Inr (asc ''#9575cd'')
                else if s = asc ''folder'' then Inr (asc ''#f06292'')
                else Inr (asc ''#9e9e9e'')
            | _ \<Rightarrow> Inl (AttributeError (asc ''startswith''))))"

text \<open>
  \<open>size_str\<close> in \<open>display_label\<close>: \<open>f"{size:,} bytes" if size > 1000 else f"{size} bytes"\<close>.
  Comparing a value that is not a number with \<open>1000\<close> raises \<open>TypeError\<close>.
\<close>

definition size_str :: "jval \<Rightarrow> exn + pystr" where
  "size_str v =
     (case v of
        JInt i \<Rightarrow> Inr ((if i > 1000 then show_int_commas i else show_int i) @ asc '' bytes'')
      | JBool b \<Rightarrow> Inr ((if b then asc ''True'' else asc ''False'') @ asc '' bytes'')
      | _ \<Rightarrow> Inl (TypeError (asc ''>'')))"

definition display_label :: "(jval \<Rightarrow> pystr) \<Rightarrow> data_item \<Rightarrow> exn + pystr" where
  "display_label fmt it =
     (if kind it = JStr (asc ''manual'') then
        bind_exn (payload_get (payload it) (asc ''text'') (JStr [])) (\<lambda>v.
        bind_exn (val_strip v) (\<lambda>t.
          if t = [] then Inl (IndexError (asc ''list index out of range''))
          else
            let preview = take 60 (takeWhile (\<lambda>c. \<not> is_linebreak c) t)
            in Inr (s_label_manual @ (if preview \<noteq> [] then preview else s_label_empty))))
      else if kind it = JStr (asc ''text_file'') then
        bind_exn (payload_get (payload it) (asc ''size'') (JInt 0)) (\<lambda>size.
        bind_exn (payload_get (payload it) (asc ''file_path'') (JStr s_label_file_default)) (\<lambda>fp.
        bind_exn (basename fp) (\<lambda>name.
        bind_exn (size_str size) (\<lambda>sz.
          Inr (s_label_file @ name @ asc '' ('' @ sz @ asc '')'')))))
      else if kind it = JStr (asc ''siyuan_id'') then
        bind_exn (payload_get (payload it) (asc ''title'') JNone) (\<lambda>tv.
        bind_exn (payload_get (payload it) (asc ''id'') (JStr [])) (\<lambda>tid.
          Inr (s_label_siyuan @ py_str fmt (if truthy tv then tv else JStr s_no_title) @
               asc '' ['' @ py_str fmt tid @ asc '']'')))
      else if kind it = JStr (asc ''siyuan_multi_id'') then
        bind_exn (payload_get (payload it) (asc ''title'') JNone) (\<lambda>tv.
        bind_exn (payload_get (payload it) (asc ''id'') (JStr [])) (\<lambda>tid.
          Inr (s_label_siyuan_multi @ py_str fmt (if truthy tv then tv else JStr s_no_title) @
               asc '' ['' @ py_str fmt tid @ asc '']'')))
      else if kind it = JStr (asc ''folder'') then
        bind_exn (payload_get (payload it) (asc ''folder_path'') (JStr [])) (\<lambda>path.
        bind_exn (payload_get (payload it) (asc ''files'') (JList [])) (\<lambda>files.
        bind_exn (py_len files) (\<lambda>n.
          Inr (s_label_folder @ py_str fmt path @ asc '' ('' @ show_nat n @ s_label_files_suffix))))
      else Inr (s_label_unknown @ py_str fmt (kind it)))"

section \<open>The list widget and the merge\<close>

text \<open>
  A row of the list widget: its label and the \<open>UserRole\<close> data, which is always the
  result of \<open>to_dict\<close>.
\<close>

record lw_item =
  label :: pystr
  user_data :: pydict

fun map_exn :: "('a \<Rightarrow> exn + 'b) \<Rightarrow> 'a list \<Rightarrow> exn + 'b list" where
  "map_exn f [] = Inr []"
| "map_exn f (x # xs) =
     (case f x of
        Inl e \<Rightarrow> Inl e
      | Inr y \<Rightarrow> (case map_exn f xs of Inl e \<Rightarrow> Inl e | Inr ys \<Rightarrow> Inr (y # ys)))"

text \<open>\<open>collect_items_from_list\<close>: rows with falsy data are passed over.\<close>

definition collect_items_from_list :: "lw_item list \<Rightarrow> exn + data_item list" where
  "collect_items_from_list rs =
     map_exn (\<lambda>r. from_dict (JDict (user_data r))) (filter (\<lambda>r. user_data r \<noteq> []) rs)"

text \<open>\<open>sep = "\n" + "-" * 80 + "\n"\<close>.\<close>

definition sep :: pystr where
  "sep = 10 # replicate 80 45 @ [10]"

text \<open>One file of a folder item: the sub-header and the content, or the empty marker.\<close>

definition render_file_info :: "jval \<Rightarrow> exn + pystr" where
  "render_file_info fi =
     bind_exn (payload_get fi (asc ''file_path'') (JStr s_unknown_file)) (\<lambda>fp.
     bind_exn (basename fp) (\<lambda>name.
     bind_exn (payload_get fi (asc ''content'') (JStr [])) (\<lambda>cv.
     bind_exn (val_strip cv) (\<lambda>c.
       Inr (if c \<noteq> [] then s_file_branch @ name @ [10] @ c @ [10]
            else s_file_branch @ name @ s_empty_content_nl)))))"

text \<open>
  What one iteration of the loop of \<open>on_merge_and_copy\<close> appends to \<open>merged_lines\<close>
  for an item with a truthy payload, before the separator.
\<close>

definition render_item :: "(jval \<Rightarrow> pystr) \<Rightarrow> data_item \<Rightarrow> exn + pystr list" where
  "render_item fmt it =
     (if kind it = JStr (asc ''manual'') then
        bind_exn (payload_get (payload it) (asc ''text'') (JStr [])) (\<lambda>v.
        bind_exn (val_strip v) (\<lambda>t.
          Inr [if t \<noteq> [] then s_manual_header @ t @ [10] else s_manual_empty]))
      else if kind it = JStr (asc ''text_file'') then
        bind_exn (payload_get (payload it) (asc ''file_path'') (JStr s_unknown_file)) (\<lambda>fp.
        bind_exn (basename fp) (\<lambda>name.
        bind_exn (payload_get (payload it) (asc ''content'') (JStr [])) (\<lambda>cv.
        bind_exn (val_strip cv) (\<lambda>c.
          Inr [if c \<noteq> [] then s_lbracket @ name @ s_rbracket_nl @ c @ [10]
               else s_lbracket @ name @ s_empty_content_rbracket_nl]))))
      else
        (case kind it of
           JStr k \<Rightarrow>
             if startswith k (asc ''siyuan'') then
               bind_exn (payload_get (payload it) (asc ''title'') (JStr s_no_title)) (\<lambda>tv.
               bind_exn (val_strip tv) (\<lambda>title.
               bind_exn (payload_get (payload it) (asc ''id'') (JStr [])) (\<lambda>iv.
               bind_exn (val_strip iv) (\<lambda>doc_id.
               bind_exn (payload_get (payload it) (asc ''content'') (JStr [])) (\<lambda>cv.
               bind_exn (val_strip cv) (\<lambda>c.
                 Inr [if c \<noteq> []
                      then s_lbracket @ title @ asc '' ['' @ doc_id @ asc '']'' @ s_rbracket_nl @ c @ [10]
                      else s_lbracket @ title @ asc '' ['' @ doc_id @ asc '']'' @
                           s_empty_content_rbracket_nl]))))))
             else if k = asc ''folder'' then
               bind_exn (payload_get (payload it) (asc ''folder_path'') (JStr s_unknown_folder)) (\<lambda>fp.
               bind_exn (payload_get (payload it) (asc ''files'') (JList [])) (\<lambda>files.
               bind_exn (py_len files) (\<lambda>n.
               bind_exn (py_iter files) (\<lambda>fs.
               bind_exn (map_exn render_file_info fs) (\<lambda>blocks.
                 Inr ((s_folder_header @ py_str fmt fp @ s_folder_count_open @ show_nat n @
                       s_folder_count_close) # blocks))))))
             else Inr [s_unknown_kind @ py_str fmt (kind it) @ s_rbracket_nl]
         | _ \<Rightarrow> Inl (AttributeError (asc ''startswith''))))"

text \<open>
  The loop over \<open>enumerate(items, 1)\<close>, with \<open>merged_lines\<close> as accumulator. An item
  with a falsy payload appends the invalid-item line and goes on with \<open>continue\<close>;
  \<open>idx < len(items)\<close> holds when items remain.
\<close>

fun merge_lines :: "(jval \<Rightarrow> pystr) \<Rightarrow> data_item list \<Rightarrow> pystr list \<Rightarrow> exn + pystr list" where
  "merge_lines fmt [] acc = Inr acc"
| "merge_lines fmt (it # rest) acc =
     (if \<not> truthy (payload it) then merge_lines fmt rest (acc @ [s_invalid_item])
      else (case render_item fmt it of
              Inl e \<Rightarrow> Inl e
            | Inr blocks \<Rightarrow>
                merge_lines fmt rest (acc @ blocks @ (if rest \<noteq> [] then [sep] else []))))"

text \<open>
  \<open>on_merge_and_copy\<close>: nothing to merge, the text put on the clipboard, the warning
  that everything is empty, or the error dialog of the \<open>except\<close> clause. An exception
  of \<open>collect_items_from_list\<close> is raised outside the \<open>try\<close>.
\<close>

datatype merge_outcome =
    NothingToMerge
  | Copied pystr
  | AllEmpty
  | MergeFailed exn
  | CollectRaised exn

definition on_merge_and_copy :: "(jval \<Rightarrow> pystr) \<Rightarrow> lw_item list \<Rightarrow> merge_outcome" where
  "on_merge_and_copy fmt rs =
     (case collect_items_from_list rs of
        Inl e \<Rightarrow> CollectRaised e
      | Inr its \<Rightarrow>
          if its = [] then NothingToMerge
          else (case merge_lines fmt its [] of
                  Inl e \<Rightarrow> MergeFailed e
                | Inr ls \<Rightarrow> if strip (concat ls) \<noteq> [] then Copied (concat ls) else AllEmpty))"

section \<open>The main window: the collection and its persistence\<close>

text \<open>\<open>d[k] = v\<close> on a dict: the key keeps its place, a new key goes last.\<close>

fun dict_set :: "pystr \<Rightarrow> jval \<Rightarrow> pydict \<Rightarrow> pydict" where
  "dict_set k v [] = [(k, v)]"
| "dict_set k v (kv # d) = (if fst kv = k then (k, v) # d else kv # dict_set k v d)"

text \<open>
  \<open>MainWindow\<close>: \<open>self.items\<close>, the rows of \<open>self.list\<close>, and the configuration file.
\<close>

record window =
  items :: "data_item list"
  rows :: "lw_item list"
  cfg_disk :: disk

definition fresh :: "disk \<Rightarrow> window" where
  "fresh d = \<lparr>items = [], rows = [], cfg_disk = d\<rparr>"

text \<open>
  \<open>save_list_data\<close>. The existing document is read first (absent or unreadable: \<open>{}\<close>);
  assigning the key \<open>list_items\<close> to a document that is not an object raises, and the
  outer \<open>except\<close> swallows it before anything is written. The same \<open>except\<close> swallows a
  failed write.
\<close>

definition save_list_data :: "io_outcome \<Rightarrow> window \<Rightarrow> window" where
  "save_list_data io w =
     (let items_data = map (\<lambda>r. JDict (user_data r)) (filter (\<lambda>r. user_data r \<noteq> []) (rows w));
          cfg_data = (case content (cfg_disk w) of Doc v \<Rightarrow> v | _ \<Rightarrow> JDict [])
      in case cfg_data of
           JDict d \<Rightarrow>
             w\<lparr>cfg_disk := write_json io (JDict (dict_set (asc ''list_items'') (JList items_data) d))
                               (cfg_disk w)\<rparr>
         | _ \<Rightarrow> w)"

text \<open>
  The loop of \<open>load_list_data\<close>. The item is appended to \<open>self.items\<close> before the icon
  and the label are computed; an exception from there on skips the row only.
\<close>

fun load_items :: "(jval \<Rightarrow> pystr) \<Rightarrow> jval list \<Rightarrow> window \<Rightarrow> window" where
  "load_items fmt [] w = w"
| "load_items fmt (e # es) w =
     (case from_dict e of
        Inl x \<Rightarrow> load_items fmt es w
      | Inr it \<Rightarrow>
          (case bind_exn (icon_for_kind (kind it)) (\<lambda>c. display_label fmt it) of
             Inl x \<Rightarrow> load_items fmt es (w\<lparr>items := items w @ [it]\<rparr>)
           | Inr l \<Rightarrow>
               load_items fmt es
                 (w\<lparr>items := items w @ [it],
                    rows := rows w @ [\<lparr>label = l, user_data = to_dict it\<rparr>]\<rparr>)))"

text \<open>\<open>load_list_data\<close>: every exception outside the loop leaves the window as it is.\<close>

definition load_list_data :: "(jval \<Rightarrow> pystr) \<Rightarrow> window \<Rightarrow> window" where
  "load_list_data fmt w =
     (case content (cfg_disk w) of
        Absent \<Rightarrow> w
      | Malformed \<Rightarrow> w
      | Doc v \<Rightarrow>
          (case payload_get v (asc ''list_items'') (JList []) of
             Inl x \<Rightarrow> w
           | Inr items_data \<Rightarrow>
               if \<not> truthy items_data then w
               else (case py_iter items_data of
                       Inl x \<Rightarrow> w
                     | Inr es \<Rightarrow> load_items fmt es w)))"

text \<open>
  \<open>add_item\<close>. When the icon or the label raises, the exception leaves the slot with
  the item already in \<open>self.items\<close>, no row and no save.
\<close>

definition add_item :: "(jval \<Rightarrow> pystr) \<Rightarrow> io_outcome \<Rightarrow> data_item \<Rightarrow> window \<Rightarrow> window" where
  "add_item fmt io it w =
     (case bind_exn (icon_for_kind (kind it)) (\<lambda>c. display_label fmt it) of
        Inl x \<Rightarrow> w\<lparr>items := items w @ [it]\<rparr>
      | Inr l \<Rightarrow>
          save_list_data io
            (w\<lparr>items := items w @ [it],
               rows := rows w @ [\<lparr>label = l, user_data = to_dict it\<rparr>]\<rparr>))"

text \<open>
  Submitting a manual text: \<open>AddArea._on_add_manual\<close> strips the editor's text and
  refuses an empty one; \<open>on_manual_submitted\<close> builds the item, whose \<open>_id\<close> is the
  \<open>uuid4().hex\<close> drawn at that moment.
\<close>

definition on_manual_submitted ::
  "(jval \<Rightarrow> pystr) \<Rightarrow> io_outcome \<Rightarrow> pystr \<Rightarrow> pystr \<Rightarrow> window \<Rightarrow> window" where
  "on_manual_submitted fmt io uid t w =
     add_item fmt io
       \<lparr>kind = JStr (asc ''manual''), payload = JDict [(asc ''text'', JStr t)], item_id = JStr uid\<rparr> w"

definition submit_manual ::
  "(jval \<Rightarrow> pystr) \<Rightarrow> io_outcome \<Rightarrow> pystr \<Rightarrow> pystr \<Rightarrow> window \<Rightarrow> window" where
  "submit_manual fmt io uid text0 w =
     (if strip text0 = [] then w else on_manual_submitted fmt io uid (strip text0) w)"

text \<open>The item that \<open>FileProcessor.process_files\<close> emits for one file.\<close>

definition text_file_item :: "pystr \<Rightarrow> pystr \<Rightarrow> nat \<Rightarrow> pystr \<Rightarrow> pystr \<Rightarrow> data_item" where
  "text_file_item file_path body n display_name uid =
     \<lparr>kind = JStr (asc ''text_file''),
      payload = JDict [(asc ''file_path'', JStr file_path), (asc ''content'', JStr body),
                       (asc ''size'', JInt (int n)), (asc ''display_name'', JStr display_name)],
      item_id = JStr uid\<rparr>"

text \<open>
  The item that the worker of \<open>_fetch_siyuan_ids_blocking\<close> builds from the pair of
  \<open>get_document\<close>; \<open>content.strip()\<close> on a truthy value that is not a string raises in
  the worker thread and no item is added.
\<close>

definition s_fetch_failed_title :: pystr where
  "s_fetch_failed_title = [0x672A, 0x80FD, 0x83B7, 0x53D6]"

definition s_fetch_failed_content :: pystr where
  "s_fetch_failed_content = asc ''['' @ [0x672A, 0x80FD, 0x83B7, 0x53D6, 0x5185, 0x5BB9] @ asc '']''"

definition siyuan_item :: "pystr \<Rightarrow> jval \<times> jval \<Rightarrow> pystr \<Rightarrow> exn + data_item" where
  "siyuan_item doc_id tc uid =
     bind_exn (if truthy (snd tc) then bind_exn (val_strip (snd tc)) (\<lambda>s. Inr (s \<noteq> [])) else Inr False)
       (\<lambda>has_content.
          Inr (if has_content
               then \<lparr>kind = JStr (asc ''siyuan_id''),
                     payload = JDict [(asc ''id'', JStr doc_id),
                                      (asc ''title'', if truthy (fst tc) then fst tc else JStr s_no_title),
                                      (asc ''content'', snd tc)],
                     item_id = JStr uid\<rparr>
               else \<lparr>kind = JStr (asc ''siyuan_id''),
                     payload = JDict [(asc ''id'', JStr doc_id),
                                      (asc ''title'', JStr s_fetch_failed_title),
                                      (asc ''content'', JStr s_fetch_failed_content)],
                     item_id = JStr uid\<rparr>))"

text \<open>
  \<open>on_list_item_moved\<close>, the slot behind move, drop and delete: \<open>self.items\<close> is read
  back from the rows, then the list is saved.
\<close>

definition on_list_item_moved :: "io_outcome \<Rightarrow> window \<Rightarrow> window" where
  "on_list_item_moved io w =
     (case collect_items_from_list (rows w) of
        Inl x \<Rightarrow> w
      | Inr its \<Rightarrow> save_list_data io (w\<lparr>items := its\<rparr>))"

text \<open>
  The context menu of the list. Delete takes the selected rows out; move up, down, top
  and bottom take one row out and insert it elsewhere (an insertion past the end
  appends), and do nothing where the source does nothing.
\<close>

definition delete_rows :: "io_outcome \<Rightarrow> nat set \<Rightarrow> window \<Rightarrow> window" where
  "delete_rows io sel w = on_list_item_moved io (w\<lparr>rows := nths (rows w) (- sel)\<rparr>)"

definition move_row :: "io_outcome \<Rightarrow> nat \<Rightarrow> nat \<Rightarrow> window \<Rightarrow> window" where
  "move_row io i j w =
     (if i < length (rows w)
      then on_list_item_moved io
             (w\<lparr>rows := (let rest = take i (rows w) @ drop (Suc i) (rows w)
                          in take j rest @ [rows w ! i] @ drop j rest)\<rparr>)
      else w)"

definition move_up :: "io_outcome \<Rightarrow> nat \<Rightarrow> window \<Rightarrow> window" where
  "move_up io i w = (if 0 < i then move_row io i (i - 1) w else w)"

definition move_down :: "io_outcome \<Rightarrow> nat \<Rightarrow> window \<Rightarrow> window" where
  "move_down io i w = (if Suc i < length (rows w) then move_row io i (Suc i) w else w)"

definition move_top :: "io_outcome \<Rightarrow> nat \<Rightarrow> window \<Rightarrow> window" where
  "move_top io i w = move_row io i 0 w"

definition move_bottom :: "io_outcome \<Rightarrow> nat \<Rightarrow> window \<Rightarrow> window" where
  "move_bottom io i w = move_row io i (length (rows w)) w"

text \<open>\<open>on_clear_list\<close>, once the user has confirmed.\<close>

definition on_clear_list :: "io_outcome \<Rightarrow> window \<Rightarrow> window" where
  "on_clear_list io w =
     (if rows w = [] then w else save_list_data io (w\<lparr>items := [], rows := []\<rparr>))"

text \<open>
  The windows that the public operations reach. A window starts with \<open>load_list_data\<close>
  on whatever the configuration file holds; then come manual texts, processed files,
  fetched documents, deletion, moves and clearing, each with any outcome of its save.
\<close>

inductive reachable :: "(jval \<Rightarrow> pystr) \<Rightarrow> window \<Rightarrow> bool" for fmt :: "jval \<Rightarrow> pystr" where
  r_start: "reachable fmt (load_list_data fmt (fresh d))"
| r_manual: "reachable fmt w \<Longrightarrow> reachable fmt (submit_manual fmt io uid text0 w)"
| r_file: "reachable fmt w \<Longrightarrow>
         reachable fmt (add_item fmt io (text_file_item file_path body n display_name uid) w)"
| r_fetched: "reachable fmt w \<Longrightarrow> siyuan_item doc_id tc uid = Inr it \<Longrightarrow>
            reachable fmt (add_item fmt io it w)"
| r_deleted: "reachable fmt w \<Longrightarrow> reachable fmt (delete_rows io sel w)"
| r_moved: "reachable fmt w \<Longrightarrow> reachable fmt (move_row io i j w)"
| r_cleared: "reachable fmt w \<Longrightarrow> reachable fmt (on_clear_list io w)"

text \<open>
  The snapshot was written: \<open>save_list_data\<close> got as far as the write, and the file
  holds a document afterwards.
\<close>

definition snapshot_written :: "io_outcome \<Rightarrow> window \<Rightarrow> bool" where
  "snapshot_written io w \<longleftrightarrow>
     write_attempts (cfg_disk (save_list_data io w)) = Suc (write_attempts (cfg_disk w)) \<and>
     (case content (cfg_disk (save_list_data io w)) of Doc v \<Rightarrow> True | _ \<Rightarrow> False)"

text \<open>
  What lets the snapshot be written: the document on disk is absent, unreadable or an
  object, and neither it nor the data of the rows holds a string that cannot be encoded.
\<close>

definition snapshot_doc :: "window \<Rightarrow> jval option" where
  "snapshot_doc w =
     (case (case content (cfg_disk w) of Doc v \<Rightarrow> v | _ \<Rightarrow> JDict []) of
        JDict d \<Rightarrow>
          Some (JDict (dict_set (asc ''list_items'')
                  (JList (map (\<lambda>r. JDict (user_data r))
                            (filter (\<lambda>r. user_data r \<noteq> []) (rows w)))) d))
      | _ \<Rightarrow> None)"

definition writable :: "window \<Rightarrow> bool" where
  "writable w = (case snapshot_doc w of Some v \<Rightarrow> encodable v | None \<Rightarrow> False)"

text \<open>
  The rendering the specification describes: the blocks of the items in order, one
  divider between consecutive items and none after the last.
\<close>

fun blocks_with_dividers :: "pystr list list \<Rightarrow> pystr list" where
  "blocks_with_dividers [] = []"
| "blocks_with_dividers [b] = b"
| "blocks_with_dividers (b # c # bs) = b @ [sep] @ blocks_with_dividers (c # bs)"

text \<open>
  A row is in order when its data is the \<open>to_dict\<close> of an item whose icon and label
  can be computed and whose label the row shows. \<open>self.items\<close> may hold more than the
  rows: \<open>load_list_data\<close> and \<open>add_item\<close> append to it before the label is computed.
\<close>

definition row_for :: "(jval \<Rightarrow> pystr) \<Rightarrow> data_item \<Rightarrow> lw_item \<Rightarrow> bool" where
  "row_for fmt it r \<longleftrightarrow>
     bind_exn (icon_for_kind (kind it)) (\<lambda>c. display_label fmt it) = Inr (label r) \<and>
     user_data r = to_dict it"

definition row_ok :: "(jval \<Rightarrow> pystr) \<Rightarrow> lw_item \<Rightarrow> bool" where
  "row_ok fmt r =
     (case from_dict (JDict (user_data r)) of Inr it \<Rightarrow> row_for fmt it r | Inl e \<Rightarrow> False)"

definition rows_valid :: "(jval \<Rightarrow> pystr) \<Rightarrow> window \<Rightarrow> bool" where
  "rows_valid fmt w = list_all (row_ok fmt) (rows w)"

section \<open>Text extraction\<close>

text \<open>
  \<open>os.path.splitext(p)[1]\<close> (POSIX): the part of the base name from its last dot on,
  provided a character other than a dot stands before that dot; otherwise empty.
\<close>

definition path_ext :: "pystr \<Rightarrow> pystr" where
  "path_ext p =
     (let base = path_basename p in
      if 46 \<notin> set base then []
      else
        let ext = 46 # rev (takeWhile (\<lambda>c. c \<noteq> 46) (rev base));
            stem = take (length base - length ext) base
        in if list_ex (\<lambda>c. c \<noteq> 46) stem then ext else [])"

text \<open>
  \<open>str.lower\<close>. The result is only compared with ASCII extensions: ASCII capitals and
  the two code points outside ASCII whose lower-case form contains an ASCII letter
  (U+212A, U+0130) are mapped; every other code point is left as it is.
\<close>

definition py_lower :: "pystr \<Rightarrow> pystr" where
  "py_lower s =
     concat (map (\<lambda>c. if 65 \<le> c \<and> c \<le> 90 then [c + 32]
                        else if c = 0x212A then [107]
                        else if c = 0x130 then [105, 0x307]
                        else [c]) s)"

text \<open>
  The lines a text file opened with \<open>newline=""\<close> yields: split after \<open>\n\<close>, \<open>\r\n\<close>
  and \<open>\r\<close>, the line ends kept.
\<close>

fun file_lines_from :: "pystr \<Rightarrow> pystr \<Rightarrow> pystr list" where
  "file_lines_from [] cur = (if cur = [] then [] else [cur])"
| "file_lines_from [c] cur =
     (if c = 10 \<or> c = 13 then [cur @ [c]] else [cur @ [c]])"
| "file_lines_from (c # d # s) cur =
     (if c = 13 \<and> d = 10 then (cur @ [13, 10]) # file_lines_from s []
      else if c = 10 \<or> c = 13 then (cur @ [c]) # file_lines_from (d # s) []
      else file_lines_from (d # s) (cur @ [c]))"

definition file_lines :: "pystr \<Rightarrow> pystr list" where
  "file_lines s = file_lines_from s []"

text \<open>What \<open>read()\<close> returns with the default \<open>newline=None\<close>: \<open>\r\n\<close> and \<open>\r\<close> become \<open>\n\<close>.\<close>

fun translate_newlines :: "pystr \<Rightarrow> pystr" where
  "translate_newlines [] = []"
| "translate_newlines [c] = (if c = 13 then [10] else [c])"
| "translate_newlines (c # d # s) =
     (if c = 13 \<and> d = 10 then 10 # translate_newlines s
      else if c = 13 then 10 # translate_newlines (d # s)
      else c # translate_newlines (d # s))"

subsection \<open>\<open>csv.reader\<close>\<close>

text \<open>
  The reader of the standard library, for the dialect the source uses (quote character
  \<open>"\<close>, double quotes, no escape character, not strict) and a given delimiter: the
  state machine that consumes the characters of a line and then the end-of-line mark.
  A field may hold 131072 characters.
\<close>

datatype csv_state =
    START_RECORD | START_FIELD | IN_FIELD | IN_QUOTED_FIELD | QUOTE_IN_QUOTED_FIELD | EAT_CRNL

datatype csv_char = Ch nat | EOL

record csv_parser =
  state :: csv_state
  cur_field :: pystr
  row_fields :: "pystr list"

definition parse_reset :: csv_parser where
  "parse_reset = \<lparr>state = START_RECORD, cur_field = [], row_fields = []\<rparr>"

definition parse_save_field :: "csv_parser \<Rightarrow> csv_parser" where
  "parse_save_field p = p\<lparr>row_fields := row_fields p @ [cur_field p], cur_field := []\<rparr>"

definition parse_add_char :: "csv_parser \<Rightarrow> nat \<Rightarrow> exn + csv_parser" where
  "parse_add_char p c =
     (if length (cur_field p) \<ge> 131072 then Inl (CsvError (asc ''field larger than field limit (131072)''))
      else Inr (p\<lparr>cur_field := cur_field p @ [c]\<rparr>))"

definition is_newline :: "csv_char \<Rightarrow> bool" where
  "is_newline c \<longleftrightarrow> c = Ch 10 \<or> c = Ch 13"

definition start_field :: "nat \<Rightarrow> csv_parser \<Rightarrow> csv_char \<Rightarrow> exn + csv_parser" where
  "start_field delim p c =
     (if is_newline c \<or> c = EOL
      then Inr ((parse_save_field p)\<lparr>state := (if c = EOL then START_RECORD else EAT_CRNL)\<rparr>)
      else if c = Ch 34 then Inr (p\<lparr>state := IN_QUOTED_FIELD\<rparr>)
      else if c = Ch delim then Inr (parse_save_field p)
      else (case c of
              Ch x \<Rightarrow> bind_exn (parse_add_char p x) (\<lambda>q. Inr (q\<lparr>state := IN_FIELD\<rparr>))
            | EOL \<Rightarrow> Inr p))"

definition parse_process_char :: "nat \<Rightarrow> csv_parser \<Rightarrow> csv_char \<Rightarrow> exn + csv_parser" where
  "parse_process_char delim p c =
     (case state p of
        START_RECORD \<Rightarrow>
          if c = EOL then Inr p
          else if is_newline c then Inr (p\<lparr>state := EAT_CRNL\<rparr>)
          else start_field delim (p\<lparr>state := START_FIELD\<rparr>) c
      | START_FIELD \<Rightarrow> start_field delim p c
      | IN_FIELD \<Rightarrow>
          if is_newline c \<or> c = EOL
          then Inr ((parse_save_field p)\<lparr>state := (if c = EOL then START_RECORD else EAT_CRNL)\<rparr>)
          else if c = Ch delim then Inr ((parse_save_field p)\<lparr>state := START_FIELD\<rparr>)
          else (case c of Ch x \<Rightarrow> parse_add_char p x | EOL \<Rightarrow> Inr p)
      | IN_QUOTED_FIELD \<Rightarrow>
          if c = EOL then Inr p
          else if c = Ch 34 then Inr (p\<lparr>state := QUOTE_IN_QUOTED_FIELD\<rparr>)
          else (case c of Ch x \<Rightarrow> parse_add_char p x | EOL \<Rightarrow> Inr p)
      | QUOTE_IN_QUOTED_FIELD \<Rightarrow>
          if c = Ch 34
          then bind_exn (parse_add_char p 34) (\<lambda>q. Inr (q\<lparr>state := IN_QUOTED_FIELD\<rparr>))
          else if c = Ch delim then Inr ((parse_save_field p)\<lparr>state := START_FIELD\<rparr>)
          else if is_newline c \<or> c = EOL
          then Inr ((parse_save_field p)\<lparr>state := (if c = EOL then START_RECORD else EAT_CRNL)\<rparr>)
          else (case c of
                  Ch x \<Rightarrow> bind_exn (parse_add_char p x) (\<lambda>q. Inr (q\<lparr>state := IN_FIELD\<rparr>))
                | EOL \<Rightarrow> Inr p)
      | EAT_CRNL \<Rightarrow>
          if is_newline c then Inr p
          else if c = EOL then Inr (p\<lparr>state := START_RECORD\<rparr>)
          else Inl (CsvError (asc ''new-line character seen in unquoted field'')))"

text \<open>The characters of one line, then the end-of-line mark.\<close>

fun process_chars :: "nat \<Rightarrow> csv_parser \<Rightarrow> csv_char list \<Rightarrow> exn + csv_parser" where
  "process_chars delim p [] = Inr p"
| "process_chars delim p (c # cs) =
     (case parse_process_char delim p c of
        Inl e \<Rightarrow> Inl e
      | Inr q \<Rightarrow> process_chars delim q cs)"

definition process_line :: "nat \<Rightarrow> csv_parser \<Rightarrow> pystr \<Rightarrow> exn + csv_parser" where
  "process_line delim p l = process_chars delim p (map Ch l @ [EOL])"

text \<open>
  The rows the reader yields for the lines of a file. A record ends when a line leaves
  the parser at the start of a record; at the end of the input a record in progress
  (an open quoted field, or a field with characters) is yielded as it stands.
\<close>

fun read_rows :: "nat \<Rightarrow> pystr list \<Rightarrow> csv_parser \<Rightarrow> pystr list list \<Rightarrow> exn + pystr list list" where
  "read_rows delim [] p acc =
     (if cur_field p \<noteq> [] \<or> state p = IN_QUOTED_FIELD
      then Inr (acc @ [row_fields (parse_save_field p)])
      else Inr acc)"
| "read_rows delim (l # ls) p acc =
     (case process_line delim p l of
        Inl e \<Rightarrow> Inl e
      | Inr q \<Rightarrow>
          if state q = START_RECORD then read_rows delim ls parse_reset (acc @ [row_fields q])
          else read_rows delim ls q acc)"

definition csv_reader :: "nat \<Rightarrow> pystr list \<Rightarrow> exn + pystr list list" where
  "csv_reader delim ls = read_rows delim ls parse_reset []"

subsection \<open>The surroundings of an extraction\<close>

text \<open>What \<open>python-docx\<close> hands over: the paragraph texts, and the cell texts by table and row.\<close>

record docx_doc =
  paragraphs :: "pystr list"
  tables :: "pystr list list list"

text \<open>A sheet of \<open>openpyxl\<close>: \<open>cell_value r c\<close> is \<open>None\<close> or \<open>str\<close> of the value.\<close>

record xlsx_sheet =
  sheet_name :: pystr
  max_row :: nat
  max_column :: nat
  cell_value :: "nat \<Rightarrow> nat \<Rightarrow> pystr option"

text \<open>
  A cell of \<open>xlrd\<close>: a date (with \<open>str\<close> of the tuple \<open>xldate_as_tuple\<close> gives, or its
  exception), \<open>None\<close>, or another value (with its \<open>str\<close>).
\<close>

datatype xls_cell = XlsDate "exn + pystr" | XlsNone | XlsValue pystr

record xls_sheet =
  xls_name :: pystr
  nrows :: nat
  ncols :: nat
  xls_cell_at :: "nat \<Rightarrow> nat \<Rightarrow> xls_cell"

text \<open>
  Everything \<open>read_text_from_any_file\<close> and its helpers ask of the machine: which
  optional modules were imported, the decoded text of a file (or the exception of
  \<open>open\<close> or of reading), Word automation, \<open>subprocess.run\<close> (return code, stdout,
  stderr, or its exception), the temporary directory, \<open>textract\<close>, the office
  libraries, and \<open>os.path.getsize\<close>.
\<close>

record extract_env =
  win32_available :: bool
  subprocess_available :: bool
  docx_installed :: bool
  openpyxl_installed :: bool
  xlrd_installed :: bool
  open_text :: "pystr \<Rightarrow> exn + pystr"
  word_text :: "pystr \<Rightarrow> exn + pystr"
  run :: "pystr list \<Rightarrow> exn + (int \<times> pystr \<times> pystr)"
  mkdtemp :: "exn + pystr"
  path_exists :: "pystr \<Rightarrow> bool"
  rmtree :: "pystr \<Rightarrow> exn option"
  textract_process :: "pystr \<Rightarrow> exn + pystr"
  docx_document :: "pystr \<Rightarrow> exn + docx_doc"
  load_workbook :: "pystr \<Rightarrow> exn + xlsx_sheet list"
  open_workbook :: "pystr \<Rightarrow> exn + xls_sheet list"
  getsize :: "pystr \<Rightarrow> exn + nat"

text \<open>The literal prefix of the win32com failure message.\<close>

definition p_win32_failed :: pystr where
  "p_win32_failed = asc ''[win32com '' @ [0x8BFB, 0x53D6, 0x5931, 0x8D25]"

text \<open>The literal start of the win32com failure message.\<close>

definition s_win32_failed :: pystr where
  "s_win32_failed = asc ''[win32com '' @ [0x8BFB, 0x53D6, 0x5931, 0x8D25] @ asc '': ''"

text \<open>The literal start of the antiword conversion-failed message.\<close>

definition s_antiword_failed :: pystr where
  "s_antiword_failed = asc ''[antiword '' @ [0x8F6C, 0x6362, 0x5931, 0x8D25] @ asc '': ''"

text \<open>The literal antiword command not found.\<close>

definition s_antiword_missing :: pystr where
  "s_antiword_missing = asc ''['' @ [0x672A, 0x627E, 0x5230] @ asc '' antiword '' @ [0x547D, 0x4EE4, 0xFF0C, 0x8BF7, 0x5B89, 0x88C5] @ asc '' antiword]''"

text \<open>The literal antiword timed out.\<close>

definition s_antiword_timeout :: pystr where
  "s_antiword_timeout = asc ''[antiword '' @ [0x8F6C, 0x6362, 0x8D85, 0x65F6] @ asc '']''"

text \<open>The literal start of the antiword exception message.\<close>

definition s_antiword_error :: pystr where
  "s_antiword_error = asc ''[antiword '' @ [0x8F6C, 0x6362, 0x5F02, 0x5E38] @ asc '': ''"

text \<open>The literal prefix: antiword command not found.\<close>

definition p_antiword_missing :: pystr where
  "p_antiword_missing = asc ''['' @ [0x672A, 0x627E, 0x5230] @ asc '' antiword '' @ [0x547D, 0x4EE4]"

text \<open>The literal prefix: antiword conversion failed.\<close>

definition p_antiword_failed :: pystr where
  "p_antiword_failed = asc ''[antiword '' @ [0x8F6C, 0x6362, 0x5931, 0x8D25]"

text \<open>The literal start of the catdoc conversion-failed message.\<close>

definition s_catdoc_failed :: pystr where
  "s_catdoc_failed = asc ''[catdoc '' @ [0x8F6C, 0x6362, 0x5931, 0x8D25] @ asc '': ''"

text \<open>The literal catdoc command not found.\<close>

definition s_catdoc_missing :: pystr where
  "s_catdoc_missing = asc ''['' @ [0x672A, 0x627E, 0x5230] @ asc '' catdoc '' @ [0x547D, 0x4EE4, 0xFF0C, 0x8BF7, 0x5B89, 0x88C5] @ asc '' catdoc]''"

text \<open>The literal catdoc timed out.\<close>

definition s_catdoc_timeout :: pystr where
  "s_catdoc_timeout = asc ''[catdoc '' @ [0x8F6C, 0x6362, 0x8D85, 0x65F6] @ asc '']''"

text \<open>The literal start of the catdoc exception message.\<close>

definition s_catdoc_error :: pystr where
  "s_catdoc_error = asc ''[catdoc '' @ [0x8F6C, 0x6362, 0x5F02, 0x5E38] @ asc '': ''"

text \<open>The literal prefix: catdoc command not found.\<close>

definition p_catdoc_missing :: pystr where
  "p_catdoc_missing = asc ''['' @ [0x672A, 0x627E, 0x5230] @ asc '' catdoc '' @ [0x547D, 0x4EE4]"

text \<open>The literal prefix: catdoc conversion failed.\<close>

definition p_catdoc_failed :: pystr where
  "p_catdoc_failed = asc ''[catdoc '' @ [0x8F6C, 0x6362, 0x5931, 0x8D25]"

text \<open>The literal unoconv not usable.\<close>

definition s_unoconv_unavailable :: pystr where
  "s_unoconv_unavailable = asc ''[unoconv '' @ [0x4E0D, 0x53EF, 0x7528, 0xFF0C, 0x8BF7, 0x5B89, 0x88C5] @ asc '' LibreOffice '' @ [0x548C] @ asc '' unoconv]''"

text \<open>The literal start of the unoconv conversion-failed message.\<close>

definition s_unoconv_failed :: pystr where
  "s_unoconv_failed = asc ''[unoconv '' @ [0x8F6C, 0x6362, 0x5931, 0x8D25] @ asc '': ''"

text \<open>The literal unoconv timed out.\<close>

definition s_unoconv_timeout :: pystr where
  "s_unoconv_timeout = asc ''[unoconv '' @ [0x8F6C, 0x6362, 0x8D85, 0x65F6] @ asc '']''"

text \<open>The literal unoconv command not found.\<close>

definition s_unoconv_missing :: pystr where
  "s_unoconv_missing = asc ''['' @ [0x672A, 0x627E, 0x5230] @ asc '' unoconv '' @ [0x547D, 0x4EE4, 0xFF0C, 0x8BF7, 0x5B89, 0x88C5] @ asc '' LibreOffice '' @ [0x548C] @ asc '' unoconv]''"

text \<open>The literal start of the unoconv exception message.\<close>

definition s_unoconv_error :: pystr where
  "s_unoconv_error = asc ''[unoconv '' @ [0x8F6C, 0x6362, 0x5F02, 0x5E38] @ asc '': ''"

text \<open>The literal prefix: unoconv command not found.\<close>

definition p_unoconv_missing :: pystr where
  "p_unoconv_missing = asc ''['' @ [0x672A, 0x627E, 0x5230] @ asc '' unoconv '' @ [0x547D, 0x4EE4]"

text \<open>The literal prefix: unoconv conversion failed.\<close>

definition p_unoconv_failed :: pystr where
  "p_unoconv_failed = asc ''[unoconv '' @ [0x8F6C, 0x6362, 0x5931, 0x8D25]"

text \<open>The literal textract not installed.\<close>

definition s_textract_unavailable :: pystr where
  "s_textract_unavailable = asc ''[textract '' @ [0x4E0D, 0x53EF, 0x7528, 0xFF0C, 0x8BF7, 0x5B89, 0x88C5] @ asc '': pip install textract]''"

text \<open>The literal start of the textract failure message.\<close>

definition s_textract_failed :: pystr where
  "s_textract_failed = asc ''[textract '' @ [0x8F6C, 0x6362, 0x5931, 0x8D25] @ asc '': ''"

text \<open>The literal prefix: textract not installed.\<close>

definition p_textract_unavailable :: pystr where
  "p_textract_unavailable = asc ''[textract '' @ [0x4E0D, 0x53EF, 0x7528]"

text \<open>The literal prefix: textract failed.\<close>

definition p_textract_failed :: pystr where
  "p_textract_failed = asc ''[textract '' @ [0x8F6C, 0x6362, 0x5931, 0x8D25]"

text \<open>The literal unsupported format .docx.\<close>

definition s_docx_unsupported :: pystr where
  "s_docx_unsupported = asc ''['' @ [0x4E0D, 0x652F, 0x6301, 0x7684, 0x683C, 0x5F0F] @ asc '': .docx]'' @ [10] @ asc ''pip install python-docx''"

text \<open>The literal reading .docx failed.\<close>

definition s_docx_failed :: pystr where
  "s_docx_failed = asc ''['' @ [0x8BFB, 0x53D6] @ asc '' .docx '' @ [0x5931, 0x8D25] @ asc '']'' @ [10]"

text \<open>The literal unsupported format .xlsx.\<close>

definition s_xlsx_unsupported :: pystr where
  "s_xlsx_unsupported = asc ''['' @ [0x4E0D, 0x652F, 0x6301, 0x7684, 0x683C, 0x5F0F] @ asc '': .xlsx]'' @ [10] @ asc ''pip install openpyxl''"

text \<open>The literal reading .xlsx failed.\<close>

definition s_xlsx_failed :: pystr where
  "s_xlsx_failed = asc ''['' @ [0x8BFB, 0x53D6] @ asc '' .xlsx '' @ [0x5931, 0x8D25] @ asc '']'' @ [10]"

text \<open>The literal unsupported format .xls.\<close>

definition s_xls_unsupported :: pystr where
  "s_xls_unsupported = asc ''['' @ [0x4E0D, 0x652F, 0x6301, 0x7684, 0x683C, 0x5F0F] @ asc '': .xls]'' @ [10] @ asc ''pip install xlrd''"

text \<open>The literal reading .xls failed.\<close>

definition s_xls_failed :: pystr where
  "s_xls_failed = asc ''['' @ [0x8BFB, 0x53D6] @ asc '' .xls '' @ [0x5931, 0x8D25] @ asc '']'' @ [10]"

text \<open>The literal start of the message for a failed plain read.\<close>

definition s_read_file_failed :: pystr where
  "s_read_file_failed = asc ''['' @ [0x8BFB, 0x53D6, 0x6587, 0x4EF6, 0x5931, 0x8D25] @ asc '': ''"

text \<open>The literal start of the placeholder of an oversized file.\<close>

definition s_too_large :: pystr where
  "s_too_large = asc ''['' @ [0x6587, 0x4EF6, 0x8FC7, 0x5927, 0xFF0C, 0x672A, 0x8BFB, 0x53D6] @ asc '': ''"

text \<open>The literal start of the placeholder of a failed read.\<close>

definition s_read_failed :: pystr where
  "s_read_failed = asc ''['' @ [0x8BFB, 0x53D6, 0x5931, 0x8D25] @ asc '': ''"

text \<open>The literal start of the placeholder of a failed file in process_files.\<close>

definition s_process_failed :: pystr where
  "s_process_failed = asc ''['' @ [0x5904, 0x7406, 0x6587, 0x4EF6, 0x65F6, 0x51FA, 0x9519] @ asc '': ''"

text \<open>The literal prefix of the placeholder of an oversized file.\<close>

definition p_too_large :: pystr where
  "p_too_large = asc ''['' @ [0x6587, 0x4EF6, 0x8FC7, 0x5927, 0xFF0C, 0x672A, 0x8BFB, 0x53D6]"

text \<open>The literal prefix of the placeholder of a failed read.\<close>

definition p_read_failed :: pystr where
  "p_read_failed = asc ''['' @ [0x8BFB, 0x53D6, 0x5931, 0x8D25]"



text \<open>The literal prefix of a warning marker.\<close>

definition p_warning :: pystr where
  "p_warning = asc ''['' @ [0x8B66, 0x544A] @ asc '':''"

text \<open>The triple-quoted text assigned to \<open>install_guide\<close>, before \<open>strip()\<close>.\<close>

definition install_guide :: pystr where
  "install_guide =
     [10] @ asc ''[.doc '' @ [0x6587, 0x4EF6, 0x8BFB, 0x53D6, 0x5931, 0x8D25] @ asc '']'' @
     [10, 10, 0x652F, 0x6301] @ asc '' .doc '' @ [0x6587, 0x4EF6, 0x7684, 0x51E0, 0x79CD,
     0x65B9, 0x6848, 0xFF08, 0x4EFB, 0x9009, 0x5176, 0x4E00, 0xFF09, 0xFF1A, 10, 10] @
     asc ''1. Windows '' @ [0x7CFB, 0x7EDF, 0xFF08, 0x63A8, 0x8350, 0xFF09] @ asc '':'' @
     [10] @ asc ''   '' @ [0x2022] @ asc '' '' @ [0x5B89, 0x88C5] @
     asc '' Microsoft Word '' @ [0x6216] @ asc '' Word Viewer'' @ [10, 10] @ asc ''   '' @
     [0x2022] @ asc '' '' @ [0x5B89, 0x88C5] @ asc '' pywin32: pip install pywin32'' @ [10,
     10, 10] @ asc ''2. '' @ [0x5B89, 0x88C5] @ asc '' antiword'' @ [0xFF08, 0x8DE8, 0x5E73,
     0x53F0, 0xFF09] @ asc '':'' @ [10] @ asc ''   '' @ [0x2022] @
     asc '' Linux: sudo apt-get install antiword'' @ [10, 10] @ asc ''   '' @ [0x2022] @
     asc '' macOS: brew install antiword'' @ [10, 10] @ asc ''   '' @ [0x2022] @
     asc '' Windows: '' @ [0x4E0B, 0x8F7D] @ asc '' antiword.exe '' @ [0x5E76, 0x6DFB,
     0x52A0, 0x5230] @ asc '' PATH'' @ [10, 10] @ asc ''   '' @ [0x2022] @ asc '' '' @
     [0x7136, 0x540E, 0x4F7F, 0x7528] @ asc '': pip install antiword'' @ [10, 10, 10] @
     asc ''3. '' @ [0x5B89, 0x88C5] @ asc '' catdoc'' @ [0xFF08, 0x8DE8, 0x5E73, 0x53F0,
     0xFF09] @ asc '':'' @ [10] @ asc ''   '' @ [0x2022] @
     asc '' Linux: sudo apt-get install catdoc'' @ [10, 10] @ asc ''   '' @ [0x2022] @
     asc '' macOS: brew install catdoc'' @ [10, 10] @ asc ''   '' @ [0x2022] @
     asc '' Windows: '' @ [0x4E0B, 0x8F7D] @ asc '' catdoc '' @ [0x5E76, 0x6DFB, 0x52A0,
     0x5230] @ asc '' PATH'' @ [10, 10, 10] @ asc ''4. '' @ [0x5B89, 0x88C5] @
     asc '' LibreOffice + unoconv:'' @ [10] @ asc ''   '' @ [0x2022] @ asc '' '' @ [0x5B89,
     0x88C5] @ asc '' LibreOffice'' @ [10, 10] @ asc ''   '' @ [0x2022] @ asc '' '' @
     [0x5B89, 0x88C5] @ asc '' unoconv: pip install unoconv'' @ [10, 10, 10] @ asc ''5. '' @
     [0x5B89, 0x88C5] @ asc '' textract'' @ [0xFF08, 0x63A8, 0x8350, 0xFF09] @ asc '':'' @
     [10] @ asc ''   '' @ [0x2022] @ asc '' pip install textract'' @ [10, 10, 10, 0x9009,
     0x62E9, 0x4E00, 0x79CD, 0x65B9, 0x6848, 0x5B89, 0x88C5, 0x540E, 0xFF0C, 0x91CD, 0x65B0,
     0x5C1D, 0x8BD5, 0x6253, 0x5F00] @ asc '' .doc '' @ [0x6587, 0x4EF6, 0x3002, 10] @
     asc ''        ''"

subsection \<open>The readers of \<open>.doc\<close> files\<close>

text \<open>
  Each helper catches every exception and answers with a bracketed message, so it
  always returns a string.
\<close>

definition read_doc_file_with_win32com :: "extract_env \<Rightarrow> pystr \<Rightarrow> pystr" where
  "read_doc_file_with_win32com env path =
     (case word_text env path of
        Inr text0 \<Rightarrow> strip text0
      | Inl e \<Rightarrow> s_win32_failed @ str_exn e @ asc '']'')"

definition read_doc_file_with_antiword :: "extract_env \<Rightarrow> pystr \<Rightarrow> pystr" where
  "read_doc_file_with_antiword env path =
     (case run env [asc ''antiword'', path] of
        Inr (rc, out, err) \<Rightarrow> if rc = 0 then out else s_antiword_failed @ err @ asc '']''
      | Inl (FileNotFoundError m) \<Rightarrow> s_antiword_missing
      | Inl (TimeoutExpired m) \<Rightarrow> s_antiword_timeout
      | Inl e \<Rightarrow> s_antiword_error @ str_exn e @ asc '']'')"

definition read_doc_file_with_catdoc :: "extract_env \<Rightarrow> pystr \<Rightarrow> pystr" where
  "read_doc_file_with_catdoc env path =
     (case run env [asc ''catdoc'', path] of
        Inr (rc, out, err) \<Rightarrow> if rc = 0 then out else s_catdoc_failed @ err @ asc '']''
      | Inl (FileNotFoundError m) \<Rightarrow> s_catdoc_missing
      | Inl (TimeoutExpired m) \<Rightarrow> s_catdoc_timeout
      | Inl e \<Rightarrow> s_catdoc_error @ str_exn e @ asc '']'')"

text \<open>\<open>os.path.join(a, b)\<close> (POSIX).\<close>

definition path_join :: "pystr \<Rightarrow> pystr \<Rightarrow> pystr" where
  "path_join a b =
     (if startswith b [47] then b
      else if a = [] \<or> last a = 47 then a @ b
      else a @ [47] @ b)"

text \<open>The three \<open>except\<close> clauses of \<open>read_doc_file_with_unoconv\<close>.\<close>

definition unoconv_except :: "exn \<Rightarrow> pystr" where
  "unoconv_except e =
     (case e of
        TimeoutExpired m \<Rightarrow> s_unoconv_timeout
      | FileNotFoundError m \<Rightarrow> s_unoconv_missing
      | _ \<Rightarrow> s_unoconv_error @ str_exn e @ asc '']'')"

definition read_doc_file_with_unoconv :: "extract_env \<Rightarrow> pystr \<Rightarrow> pystr" where
  "read_doc_file_with_unoconv env path =
     (case run env [asc ''unoconv'', asc ''--version''] of
        Inl e \<Rightarrow> unoconv_except e
      | Inr (rc0, out0, err0) \<Rightarrow>
          if rc0 \<noteq> 0 then s_unoconv_unavailable
          else (case mkdtemp env of
                  Inl e \<Rightarrow> unoconv_except e
                | Inr temp_dir \<Rightarrow>
                    let temp_txt = path_join temp_dir (asc ''output.txt'') in
                    (case run env [asc ''unoconv'', asc ''-f'', asc ''txt'', asc ''-o'', temp_dir, path] of
                       Inl e \<Rightarrow> unoconv_except e
                     | Inr (rc, out, err) \<Rightarrow>
                         if rc = 0 \<and> path_exists env temp_txt then
                           (case open_text env temp_txt of
                              Inl e \<Rightarrow> unoconv_except e
                            | Inr text0 \<Rightarrow>
                                (case rmtree env temp_dir of
                                   Some e \<Rightarrow> unoconv_except e
                                 | None \<Rightarrow> translate_newlines text0))
                         else if path_exists env temp_txt then
                           (case rmtree env temp_dir of
                              Some e \<Rightarrow> unoconv_except e
                            | None \<Rightarrow> s_unoconv_failed @ err @ asc '']'')
                         else s_unoconv_failed @ err @ asc '']'')))"

definition read_doc_file_with_textract :: "extract_env \<Rightarrow> pystr \<Rightarrow> pystr" where
  "read_doc_file_with_textract env path =
     (case textract_process env path of
        Inr text0 \<Rightarrow> text0
      | Inl (ImportError m) \<Rightarrow> s_textract_unavailable
      | Inl e \<Rightarrow> s_textract_failed @ str_exn e @ asc '']'')"

text \<open>
  The text taken from a document of \<open>python-docx\<close>: the paragraphs, then every table
  row with its stripped cells joined by \<open>" | "\<close>, one per line.
\<close>

definition docx_text :: "docx_doc \<Rightarrow> pystr" where
  "docx_text d =
     join [10] (paragraphs d @
                concat (map (map (\<lambda>row. join (asc '' | '') (map strip row))) (tables d)))"

text \<open>
  The \<open>.doc\<close> branch of \<open>read_text_from_any_file\<close>: the six methods in the order of the
  source, each behind its availability flag, each accepted by its own test; then the
  stripped installation guide.
\<close>

definition read_doc :: "extract_env \<Rightarrow> pystr \<Rightarrow> pystr" where
  "read_doc env path =
     (let c1 = read_doc_file_with_win32com env path in
      if win32_available env \<and> \<not> startswith c1 p_win32_failed then c1 else
      let c2 = read_doc_file_with_antiword env path in
      if subprocess_available env \<and> \<not> startswith c2 p_antiword_missing \<and>
         \<not> startswith c2 p_antiword_failed then c2 else
      let c3 = read_doc_file_with_catdoc env path in
      if subprocess_available env \<and> \<not> startswith c3 p_catdoc_missing \<and>
         \<not> startswith c3 p_catdoc_failed then c3 else
      let c4 = read_doc_file_with_unoconv env path in
      if subprocess_available env \<and> \<not> startswith c4 p_unoconv_missing \<and>
         \<not> startswith c4 p_unoconv_failed then c4 else
      let c5 = read_doc_file_with_textract env path in
      if \<not> startswith c5 p_textract_unavailable \<and> \<not> startswith c5 p_textract_failed then c5 else
      (case (if docx_installed env then docx_document env path
             else Inl (OtherException [])) of
         Inr d \<Rightarrow> if strip (docx_text d) \<noteq> [] then docx_text d else strip install_guide
       | Inl e \<Rightarrow> strip install_guide))"

subsection \<open>Spreadsheets\<close>

definition xlsx_lines :: "xlsx_sheet \<Rightarrow> pystr list" where
  "xlsx_lines ws =
     (asc ''[Sheet: '' @ sheet_name ws @ asc '']'') #
     map (\<lambda>r. join [9] (map (\<lambda>c. case cell_value ws r c of None \<Rightarrow> [] | Some s \<Rightarrow> s)
                           [1 ..< Suc (if max_column ws = 0 then 1 else max_column ws)]))
         [1 ..< Suc (if max_row ws = 0 then 1 else max_row ws)]
     @ [[]]"

definition xls_cell_text :: "xls_cell \<Rightarrow> exn + pystr" where
  "xls_cell_text c =
     (case c of XlsDate r \<Rightarrow> r | XlsNone \<Rightarrow> Inr [] | XlsValue s \<Rightarrow> Inr s)"

definition xls_lines :: "xls_sheet \<Rightarrow> exn + pystr list" where
  "xls_lines sh =
     bind_exn
       (map_exn (\<lambda>r. bind_exn (map_exn (\<lambda>c. xls_cell_text (xls_cell_at sh r c)) [0 ..< ncols sh])
                        (\<lambda>cells. Inr (join [9] cells)))
                [0 ..< nrows sh])
       (\<lambda>ls. Inr ((asc ''[Sheet: '' @ xls_name sh @ asc '']'') # ls @ [[]]))"

subsection \<open>\<open>read_text_from_any_file\<close>\<close>

text \<open>
  The dispatch on the lower-cased extension. The \<open>.csv\<close>/\<open>.tsv\<close> branch opens and
  parses the file outside any \<open>try\<close>; every other branch catches what it raises.
\<close>

definition read_text_from_any_file :: "extract_env \<Rightarrow> pystr \<Rightarrow> exn + pystr" where
  "read_text_from_any_file env path =
     (let ext = py_lower (path_ext path) in
      if ext = asc ''.csv'' \<or> ext = asc ''.tsv'' then
        bind_exn (open_text env path) (\<lambda>text0.
        bind_exn (csv_reader (if ext = asc ''.csv'' then 44 else 9) (file_lines text0)) (\<lambda>rs.
          Inr (join [10] (map (join [9]) rs))))
      else if ext = asc ''.doc'' then Inr (read_doc env path)
      else if ext = asc ''.docx'' then
        (if \<not> docx_installed env then Inr s_docx_unsupported
         else (case docx_document env path of
                 Inr d \<Rightarrow> Inr (docx_text d)
               | Inl e \<Rightarrow> Inr (s_docx_failed @ str_exn e)))
      else if ext = asc ''.xlsx'' then
        (if \<not> openpyxl_installed env then Inr s_xlsx_unsupported
         else (case load_workbook env path of
                 Inr sheets \<Rightarrow> Inr (join [10] (concat (map xlsx_lines sheets)))
               | Inl e \<Rightarrow> Inr (s_xlsx_failed @ str_exn e)))
      else if ext = asc ''.xls'' then
        (if \<not> xlrd_installed env then Inr s_xls_unsupported
         else (case bind_exn (open_workbook env path) (map_exn xls_lines) of
                 Inr ls \<Rightarrow> Inr (join [10] (concat ls))
               | Inl e \<Rightarrow> Inr (s_xls_failed @ str_exn e)))
      else
        (case open_text env path of
           Inr text0 \<Rightarrow> Inr (translate_newlines text0)
         | Inl e \<Rightarrow> Inr (s_read_file_failed @ path @ asc '']'' @ [10] @ str_exn e)))"

subsection \<open>\<open>read_text_files_by_paths\<close>\<close>

definition FILE_SIZE_LIMIT :: nat where
  "FILE_SIZE_LIMIT = 20 * 1024 * 1024"

definition MAX_CONCURRENT_FILES :: nat where
  "MAX_CONCURRENT_FILES = 5"

text \<open>\<open>read_single_file\<close>: the path, the size and the content or a placeholder.\<close>

definition read_single_file :: "extract_env \<Rightarrow> pystr \<Rightarrow> pystr \<times> nat \<times> pystr" where
  "read_single_file env fp =
     (case bind_exn (getsize env fp) (\<lambda>n.
             if n > FILE_SIZE_LIMIT
             then Inr (n, s_too_large @ path_basename fp @ asc '' ('' @ show_nat n @ asc '' bytes)]'')
             else bind_exn (read_text_from_any_file env fp) (\<lambda>c. Inr (n, c))) of
        Inr (n, c) \<Rightarrow> (fp, n, c)
      | Inl e \<Rightarrow> (fp, 0, s_read_failed @ path_basename fp @ asc '']'' @ [10] @ str_exn e))"

text \<open>
  A machine on which no file exists, nothing is installed and no command is found;
  the examples below change single fields of it.
\<close>

definition bare_env :: extract_env where
  "bare_env =
     \<lparr>win32_available = False, subprocess_available = True, docx_installed = False,
      openpyxl_installed = False, xlrd_installed = False,
      open_text = (\<lambda>p. Inl (FileNotFoundError p)),
      word_text = (\<lambda>p. Inl (OtherException [])),
      run = (\<lambda>cmd. Inl (FileNotFoundError (hd cmd))),
      mkdtemp = Inr (asc ''/tmp/t''),
      path_exists = (\<lambda>p. False),
      rmtree = (\<lambda>p. None),
      textract_process = (\<lambda>p. Inl (ImportError (asc ''textract''))),
      docx_document = (\<lambda>p. Inl (OtherException [])),
      load_workbook = (\<lambda>p. Inl (OtherException [])),
      open_workbook = (\<lambda>p. Inl (OtherException [])),
      getsize = (\<lambda>p. Inl (FileNotFoundError p))\<rparr>"

text \<open>
  The failure messages of the helpers, by the prefix each starts with. The \<open>.doc\<close>
  branch tests the first two of \<open>antiword\<close>, \<open>catdoc\<close> and \<open>unoconv\<close>; the prefixes after
  those are the messages for a time-out, for another exception and for an unusable
  \<open>unoconv\<close>, which the branch does not test.
\<close>

text \<open>The literal prefix: antiword timed out.\<close>

definition p_antiword_timeout :: pystr where
  "p_antiword_timeout = asc ''[antiword '' @ [0x8F6C, 0x6362, 0x8D85, 0x65F6]"

text \<open>The literal prefix: antiword raised.\<close>

definition p_antiword_error :: pystr where
  "p_antiword_error = asc ''[antiword '' @ [0x8F6C, 0x6362, 0x5F02, 0x5E38]"

text \<open>The literal prefix: catdoc timed out.\<close>

definition p_catdoc_timeout :: pystr where
  "p_catdoc_timeout = asc ''[catdoc '' @ [0x8F6C, 0x6362, 0x8D85, 0x65F6]"

text \<open>The literal prefix: catdoc raised.\<close>

definition p_catdoc_error :: pystr where
  "p_catdoc_error = asc ''[catdoc '' @ [0x8F6C, 0x6362, 0x5F02, 0x5E38]"

text \<open>The literal prefix: unoconv not usable.\<close>

definition p_unoconv_unavailable :: pystr where
  "p_unoconv_unavailable = asc ''[unoconv '' @ [0x4E0D, 0x53EF, 0x7528]"

text \<open>The literal prefix: unoconv timed out.\<close>

definition p_unoconv_timeout :: pystr where
  "p_unoconv_timeout = asc ''[unoconv '' @ [0x8F6C, 0x6362, 0x8D85, 0x65F6]"

text \<open>The literal prefix: unoconv raised.\<close>

definition p_unoconv_error :: pystr where
  "p_unoconv_error = asc ''[unoconv '' @ [0x8F6C, 0x6362, 0x5F02, 0x5E38]"

definition known_failures_win32com :: "pystr list" where
  "known_failures_win32com = [p_win32_failed]"

definition known_failures_antiword :: "pystr list" where
  "known_failures_antiword =
     [p_antiword_missing, p_antiword_failed, p_antiword_timeout, p_antiword_error]"

definition known_failures_catdoc :: "pystr list" where
  "known_failures_catdoc = [p_catdoc_missing, p_catdoc_failed, p_catdoc_timeout, p_catdoc_error]"

definition known_failures_unoconv :: "pystr list" where
  "known_failures_unoconv =
     [p_unoconv_missing, p_unoconv_failed, p_unoconv_unavailable, p_unoconv_timeout,
      p_unoconv_error]"

definition known_failures_textract :: "pystr list" where
  "known_failures_textract = [p_textract_unavailable, p_textract_failed]"

definition is_failure :: "pystr list \<Rightarrow> pystr \<Rightarrow> bool" where
  "is_failure prefixes c = list_ex (startswith c) prefixes"

text \<open>
  The attempts of the \<open>.doc\<close> branch as the specification lists them, in order: whether
  the method is available and its result matches no known failure prefix (for
  \<open>python-docx\<close>: the document opens and its text is not blank), and the result.
\<close>

definition doc_attempts :: "extract_env \<Rightarrow> pystr \<Rightarrow> (bool \<times> pystr) list" where
  "doc_attempts env path =
     [(win32_available env \<and>
         \<not> is_failure known_failures_win32com (read_doc_file_with_win32com env path),
       read_doc_file_with_win32com env path),
      (subprocess_available env \<and>
         \<not> is_failure known_failures_antiword (read_doc_file_with_antiword env path),
       read_doc_file_with_antiword env path),
      (subprocess_available env \<and>
         \<not> is_failure known_failures_catdoc (read_doc_file_with_catdoc env path),
       read_doc_file_with_catdoc env path),
      (subprocess_available env \<and>
         \<not> is_failure known_failures_unoconv (read_doc_file_with_unoconv env path),
       read_doc_file_with_unoconv env path),
      (\<not> is_failure known_failures_textract (read_doc_file_with_textract env path),
       read_doc_file_with_textract env path),
      (docx_installed env \<and>
         (case docx_document env path of Inr d \<Rightarrow> strip (docx_text d) \<noteq> [] | Inl e \<Rightarrow> False),
       (case docx_document env path of Inr d \<Rightarrow> docx_text d | Inl e \<Rightarrow> []))]"

text \<open>
  A helper answers with a failure message that the \<open>.doc\<close> branch does not test.
\<close>

definition untested_failure :: "extract_env \<Rightarrow> pystr \<Rightarrow> bool" where
  "untested_failure env path \<longleftrightarrow>
     is_failure [p_antiword_timeout, p_antiword_error] (read_doc_file_with_antiword env path) \<or>
     is_failure [p_catdoc_timeout, p_catdoc_error] (read_doc_file_with_catdoc env path) \<or>
     is_failure [p_unoconv_unavailable, p_unoconv_timeout, p_unoconv_error]
       (read_doc_file_with_unoconv env path)"

section \<open>The thread pool of \<open>read_text_files_by_paths\<close>\<close>

text \<open>
  The executor: the submitted paths not yet taken by a worker, the paths the workers
  are reading, the paths in the order their futures completed, and the \<open>results\<close> dict
  that the loop over \<open>as_completed\<close> fills.
\<close>

record pool =
  pending :: "pystr list"
  running :: "pystr list"
  finished :: "pystr list"
  results :: "pystr \<rightharpoonup> pystr \<times> nat"

definition submit_all :: "pystr list \<Rightarrow> pool" where
  "submit_all file_paths =
     \<lparr>pending = file_paths, running = [], finished = [], results = Map.empty\<rparr>"

text \<open>
  A step of the pool. A free worker takes the next submitted path; or any of the
  running reads completes, in whatever state the machine is at that moment, and the
  main thread stores \<open>results[fp] = (content, size)\<close>.
\<close>

inductive pool_step :: "pool \<Rightarrow> pool \<Rightarrow> bool" where
  take_task:
    "pending p = fp # rest \<Longrightarrow> length (running p) < MAX_CONCURRENT_FILES \<Longrightarrow>
     pool_step p (p\<lparr>pending := rest, running := running p @ [fp]\<rparr>)"
| complete_task:
    "i < length (running p) \<Longrightarrow> read_single_file env (running p ! i) = (fp, n, c) \<Longrightarrow>
     pool_step p (p\<lparr>running := take i (running p) @ drop (Suc i) (running p),
                     finished := finished p @ [fp],
                     results := (results p)(fp \<mapsto> (c, n))\<rparr>)"

definition pool_idle :: "pool \<Rightarrow> bool" where
  "pool_idle p \<longleftrightarrow> pending p = [] \<and> running p = []"

text \<open>One schedule among all: every path is taken and completed before the next.\<close>

fun run_in_order :: "extract_env \<Rightarrow> pystr list \<Rightarrow> pool \<Rightarrow> pool" where
  "run_in_order env [] p = p"
| "run_in_order env (fp # rest) p =
     run_in_order env rest
       (p\<lparr>pending := rest, finished := finished p @ [fp],
          results := (results p)(fp \<mapsto> (snd (snd (read_single_file env fp)),
                                           fst (snd (read_single_file env fp))))\<rparr>)"

section \<open>\<open>search_text_files_recursive\<close>\<close>






















section \<open>Facts about strings\<close>

lemma strip_blank: "(\<forall>c \<in> set s. isspace c) \<Longrightarrow> strip s = []"
proof -
  assume "\<forall>c \<in> set s. isspace c"
  then have d: "dropWhile isspace s = []" by (simp add: dropWhile_eq_Nil_conv)
  show ?thesis unfolding strip_def lstrip_def rstrip_def d by simp
qed

section \<open>Saved prompts\<close>

lemma find_existing_None: "find_existing t ps = None \<longleftrightarrow> t \<notin> p_text ` set ps"
  by (induction ps) (auto split: option.splits)

lemma find_existing_Some:
  "find_existing t ps = Some i \<Longrightarrow>
     i < length ps \<and> p_text (ps ! i) = t \<and> (\<forall>j<i. p_text (ps ! j) \<noteq> t)"
proof (induction ps arbitrary: i)
  case Nil
  then show ?case by simp
next
  case (Cons p ps)
  show ?case
  proof (cases "p_text p = t")
    case True
    with Cons.prems show ?thesis by simp
  next
    case False
    with Cons.prems obtain k where k: "find_existing t ps = Some k" "i = Suc k"
      by (auto split: option.splits)
    from Cons.IH [OF k(1)] False k(2) show ?thesis
      by (auto simp: less_Suc_eq_0_disj)
  qed
qed

lemma map_text_update:
  "i < length ps \<Longrightarrow>
   map p_text (ps[i := (ps ! i)\<lparr>p_updated := u, p_note := n\<rparr>]) = map p_text ps"
  by (simp add: map_update list_update_same_conv)

lemma map_created_update:
  "i < length ps \<Longrightarrow>
   map p_created (ps[i := (ps ! i)\<lparr>p_updated := u, p_note := n\<rparr>]) = map p_created ps"
  by (simp add: map_update list_update_same_conv)

lemma add_or_update_prompts:
  "strip text0 \<noteq> [] \<Longrightarrow>
   manual_prompts (add_or_update_prompt env text0 note0 m) =
     (case find_existing (strip text0) (manual_prompts m) of
        Some i \<Rightarrow> (manual_prompts m)[i := (manual_prompts m ! i)\<lparr>p_updated := now_first env, p_note := strip note0\<rparr>]
      | None \<Rightarrow> manual_prompts m @ [\<lparr>p_text = strip text0, p_note = strip note0,
                                     p_created = now_first env, p_updated = now_second env\<rparr>])"
  by (simp add: add_or_update_prompt_def Let_def save_def)

text \<open>
  C10. \<open>add_or_update_prompt\<close> called with a text that is empty or consists of
  whitespace only returns before touching anything: the records, the other keys of
  \<open>_data\<close> and the file, including the count of write attempts, are what they were.
\<close>

theorem add_or_update_prompt_blank_noop:
  "(\<forall>c \<in> set text0. isspace c) \<Longrightarrow> add_or_update_prompt env text0 note0 m = m"
  by (simp add: add_or_update_prompt_def strip_blank)

theorem add_or_update_prompt_blank_noop_witness:
  "list_all isspace (asc '' '') \<and>
   add_or_update_prompt \<lparr>now_first = asc ''t1'', now_second = asc ''t2'', save_io = IoOk\<rparr>
       (asc '' '') (asc ''n'')
       \<lparr>manual_prompts = [\<lparr>p_text = asc ''a'', p_note = [], p_created = asc ''t0'',
                            p_updated = asc ''t0''\<rparr>],
        other_keys = [], cfg = \<lparr>content = Absent, write_attempts = 0\<rparr>\<rparr>
     = \<lparr>manual_prompts = [\<lparr>p_text = asc ''a'', p_note = [], p_created = asc ''t0'',
                            p_updated = asc ''t0''\<rparr>],
        other_keys = [], cfg = \<lparr>content = Absent, write_attempts = 0\<rparr>\<rparr>"
proof -
  have h: "\<forall>c \<in> set (asc '' ''). isspace c"
    by (simp add: asc_def isspace_def)
  from h add_or_update_prompt_blank_noop [OF h] show ?thesis by (simp add: list_all_iff)
qed

text \<open>
  C7, as stated, fails: the comparison is made on the stripped text. The store holds
  one record with text \<open>a\<close>; saving the text \<open>" a"\<close>, which equals no record's text,
  appends nothing (it updates the record \<open>a\<close>).
\<close>

theorem add_or_update_prompt_exact_match_counterexample:
  "asc '' a'' \<notin> p_text ` set [\<lparr>p_text = asc ''a'', p_note = [], p_created = asc ''t0'',
                                   p_updated = asc ''t0''\<rparr>] \<and>
   manual_prompts
     (add_or_update_prompt \<lparr>now_first = asc ''t1'', now_second = asc ''t2'', save_io = IoOk\<rparr>
        (asc '' a'') []
        \<lparr>manual_prompts = [\<lparr>p_text = asc ''a'', p_note = [], p_created = asc ''t0'',
                             p_updated = asc ''t0''\<rparr>],
         other_keys = [], cfg = \<lparr>content = Absent, write_attempts = 0\<rparr>\<rparr>)
     = [\<lparr>p_text = asc ''a'', p_note = [], p_created = asc ''t0'', p_updated = asc ''t1''\<rparr>]"
  by (simp add: add_or_update_prompt_def Let_def save_def asc_def strip_def lstrip_def
      rstrip_def isspace_def)

text \<open>
  C7, amended. Saved prompts are unique by exact match of the stripped text. For a call
  whose stripped text \<open>t\<close> is not empty: if some record has text \<open>t\<close>, the first such
  record gets the stripped note and a new \<open>updated\<close> stamp, in place, and the number of
  records, their texts and their \<open>created\<close> stamps stay as they were; if no record has
  text \<open>t\<close>, exactly one record with text \<open>t\<close> is appended; and a store whose texts are
  pairwise distinct stays so.
\<close>

theorem add_or_update_prompt_by_stripped_text:
  "strip text0 \<noteq> [] \<Longrightarrow>
   (strip text0 \<in> p_text ` set (manual_prompts m) \<longrightarrow>
      (\<exists>i<length (manual_prompts m).
          p_text (manual_prompts m ! i) = strip text0 \<and>
          (\<forall>j<i. p_text (manual_prompts m ! j) \<noteq> strip text0) \<and>
          manual_prompts (add_or_update_prompt env text0 note0 m) =
            (manual_prompts m)[i := (manual_prompts m ! i)\<lparr>p_updated := now_first env, p_note := strip note0\<rparr>]) \<and>
      length (manual_prompts (add_or_update_prompt env text0 note0 m)) = length (manual_prompts m) \<and>
      map p_text (manual_prompts (add_or_update_prompt env text0 note0 m)) = map p_text (manual_prompts m) \<and>
      map p_created (manual_prompts (add_or_update_prompt env text0 note0 m)) = map p_created (manual_prompts m)) \<and>
   (strip text0 \<notin> p_text ` set (manual_prompts m) \<longrightarrow>
      manual_prompts (add_or_update_prompt env text0 note0 m) =
        manual_prompts m @ [\<lparr>p_text = strip text0, p_note = strip note0,
                              p_created = now_first env, p_updated = now_second env\<rparr>]) \<and>
   (distinct (map p_text (manual_prompts m)) \<longrightarrow>
      distinct (map p_text (manual_prompts (add_or_update_prompt env text0 note0 m))))"
proof -
  assume ne: "strip text0 \<noteq> []"
  define t where "t = strip text0"
  define ps where "ps = manual_prompts m"
  define ps' where "ps' = manual_prompts (add_or_update_prompt env text0 note0 m)"
  have ps': "ps' = (case find_existing t ps of
        Some i \<Rightarrow> ps[i := (ps ! i)\<lparr>p_updated := now_first env, p_note := strip note0\<rparr>]
      | None \<Rightarrow> ps @ [\<lparr>p_text = t, p_note = strip note0,
                        p_created = now_first env, p_updated = now_second env\<rparr>])"
    unfolding ps'_def t_def ps_def by (rule add_or_update_prompts [OF ne])
  have A: "(\<exists>i<length ps. p_text (ps ! i) = t \<and> (\<forall>j<i. p_text (ps ! j) \<noteq> t) \<and>
               ps' = ps[i := (ps ! i)\<lparr>p_updated := now_first env, p_note := strip note0\<rparr>]) \<and>
            length ps' = length ps \<and> map p_text ps' = map p_text ps \<and>
            map p_created ps' = map p_created ps" if "t \<in> p_text ` set ps"
  proof -
    from that obtain i where i: "find_existing t ps = Some i"
      using find_existing_None [of t ps] by (cases "find_existing t ps") auto
    note f = find_existing_Some [OF i]
    have eq: "ps' = ps[i := (ps ! i)\<lparr>p_updated := now_first env, p_note := strip note0\<rparr>]"
      using i by (simp add: ps')
    from f have "map p_text ps' = map p_text ps" "map p_created ps' = map p_created ps"
      by (simp_all add: eq map_text_update map_created_update)
    moreover have "length ps' = length ps" by (simp add: eq)
    ultimately show ?thesis using f eq by blast
  qed
  have B: "ps' = ps @ [\<lparr>p_text = t, p_note = strip note0,
                         p_created = now_first env, p_updated = now_second env\<rparr>]"
    if "t \<notin> p_text ` set ps"
    using that find_existing_None [of t ps] by (simp add: ps')
  have C: "distinct (map p_text ps')" if "distinct (map p_text ps)"
  proof (cases "t \<in> p_text ` set ps")
    case True
    with A that show ?thesis by simp
  next
    case False
    with B that show ?thesis by auto
  qed
  from A B C show ?thesis
    unfolding t_def ps_def ps'_def by blast
qed

theorem add_or_update_prompt_by_stripped_text_witness:
  "strip (asc '' a'') \<noteq> [] \<and>
   strip (asc '' a'') \<in> p_text ` set [\<lparr>p_text = asc ''a'', p_note = [], p_created = asc ''t0'',
                                          p_updated = asc ''t0''\<rparr>] \<and>
   distinct (map p_text [\<lparr>p_text = asc ''a'', p_note = [], p_created = asc ''t0'',
                           p_updated = asc ''t0''\<rparr>]) \<and>
   length (manual_prompts
     (add_or_update_prompt \<lparr>now_first = asc ''t1'', now_second = asc ''t2'', save_io = IoOk\<rparr>
        (asc '' a'') []
        \<lparr>manual_prompts = [\<lparr>p_text = asc ''a'', p_note = [], p_created = asc ''t0'',
                             p_updated = asc ''t0''\<rparr>],
         other_keys = [], cfg = \<lparr>content = Absent, write_attempts = 0\<rparr>\<rparr>)) = 1 \<and>
   strip (asc ''b'') \<noteq> [] \<and>
   strip (asc ''b'') \<notin> p_text ` set [\<lparr>p_text = asc ''a'', p_note = [], p_created = asc ''t0'',
                                          p_updated = asc ''t0''\<rparr>] \<and>
   map p_text (manual_prompts
     (add_or_update_prompt \<lparr>now_first = asc ''t1'', now_second = asc ''t2'', save_io = IoOk\<rparr>
        (asc ''b'') []
        \<lparr>manual_prompts = [\<lparr>p_text = asc ''a'', p_note = [], p_created = asc ''t0'',
                             p_updated = asc ''t0''\<rparr>],
         other_keys = [], cfg = \<lparr>content = Absent, write_attempts = 0\<rparr>\<rparr>)) = [asc ''a'', asc ''b'']"
proof -
  have sa: "strip (asc '' a'') = asc ''a''" and sb: "strip (asc ''b'') = asc ''b''"
    by (simp_all add: asc_def strip_def lstrip_def rstrip_def isspace_def)
  have ne: "asc ''a'' \<noteq> []" "asc ''b'' \<noteq> []" "asc ''b'' \<noteq> asc ''a''"
    by (simp_all add: asc_def)
  have h1: "strip (asc '' a'') \<noteq> []" and h2: "strip (asc ''b'') \<noteq> []"
    using ne by (simp_all add: sa sb)
  show ?thesis
    using add_or_update_prompt_by_stripped_text [OF h1,
        of "\<lparr>manual_prompts = [\<lparr>p_text = asc ''a'', p_note = [], p_created = asc ''t0'',
                             p_updated = asc ''t0''\<rparr>],
         other_keys = [], cfg = \<lparr>content = Absent, write_attempts = 0\<rparr>\<rparr>"
        "\<lparr>now_first = asc ''t1'', now_second = asc ''t2'', save_io = IoOk\<rparr>" "[]"]
      add_or_update_prompt_by_stripped_text [OF h2,
        of "\<lparr>manual_prompts = [\<lparr>p_text = asc ''a'', p_note = [], p_created = asc ''t0'',
                             p_updated = asc ''t0''\<rparr>],
         other_keys = [], cfg = \<lparr>content = Absent, write_attempts = 0\<rparr>\<rparr>"
        "\<lparr>now_first = asc ''t1'', now_second = asc ''t2'', save_io = IoOk\<rparr>" "[]"]
      ne
    by (simp add: sa sb)
qed

section \<open>Remote documents\<close>

lemma get_document_cases:
  "get_document post h d = Inr (JNone, JNone) \<or> get_document post h d = get_document_try post h d"
  by (auto simp: get_document_def split: sum.splits)

text \<open>
  C8. \<open>get_document\<close> never raises: it always returns a pair. The pair is
  \<open>(None, None)\<close> when the base URL or the token is missing, when the request raises
  (network, timeout), when the status is not 200, when the body does not parse, when
  the body is not an object, when its \<open>code\<close> is not 0 and when its \<open>data\<close> is not an
  object. On a 200 response whose body has \<open>code\<close> 0 and an object \<open>data\<close> the pair is
  the title (\<open>hPath\<close>, or the document id when \<open>hPath\<close> is missing or falsy) and the
  content.
\<close>

theorem get_document_total:
  "(\<exists>r. get_document post h d = Inr r) \<and>
   (api_base_url h = [] \<or> api_token h = [] \<longrightarrow> get_document post h d = Inr (JNone, JNone)) \<and>
   (\<forall>e. post (api_base_url h @ asc ''/api/export/exportMdContent'')
             [(asc ''Authorization'', asc ''Token '' @ api_token h),
              (asc ''Content-Type'', asc ''application/json'')]
             [(asc ''id'', JStr d)] (timeout h) = RequestRaises e
        \<longrightarrow> get_document post h d = Inr (JNone, JNone)) \<and>
   (\<forall>status body.
        post (api_base_url h @ asc ''/api/export/exportMdContent'')
             [(asc ''Authorization'', asc ''Token '' @ api_token h),
              (asc ''Content-Type'', asc ''application/json'')]
             [(asc ''id'', JStr d)] (timeout h) = Response status body
        \<longrightarrow>
          (status \<noteq> 200 \<longrightarrow> get_document post h d = Inr (JNone, JNone)) \<and>
          ((\<exists>e. body = Inl e) \<longrightarrow> get_document post h d = Inr (JNone, JNone)) \<and>
          (\<forall>j. body = Inr j \<and> (\<forall>dd. j \<noteq> JDict dd) \<longrightarrow> get_document post h d = Inr (JNone, JNone)) \<and>
          (\<forall>j. body = Inr (JDict j) \<and> differs_from_zero (dict_get j (asc ''code'') JNone)
                \<longrightarrow> get_document post h d = Inr (JNone, JNone)) \<and>
          (\<forall>j. body = Inr (JDict j) \<and> (\<forall>dd. dict_get j (asc ''data'') (JDict []) \<noteq> JDict dd)
                \<longrightarrow> get_document post h d = Inr (JNone, JNone)) \<and>
          (\<forall>j data. api_base_url h \<noteq> [] \<and> api_token h \<noteq> [] \<and> status = 200 \<and>
                body = Inr (JDict j) \<and> \<not> differs_from_zero (dict_get j (asc ''code'') JNone) \<and>
                dict_get j (asc ''data'') (JDict []) = JDict data
                \<longrightarrow> get_document post h d =
                      Inr (if truthy (dict_get data (asc ''hPath'') JNone)
                           then dict_get data (asc ''hPath'') JNone else JStr d,
                           dict_get data (asc ''content'') (JStr []))))"
proof -
  have total: "\<exists>r. get_document post h d = Inr r"
    by (auto simp: get_document_def split: sum.splits)
  have unconfigured:
    "api_base_url h = [] \<or> api_token h = [] \<longrightarrow> get_document post h d = Inr (JNone, JNone)"
    by (simp add: get_document_def)
  have raises: "get_document post h d = Inr (JNone, JNone)"
    if "post (api_base_url h @ asc ''/api/export/exportMdContent'')
             [(asc ''Authorization'', asc ''Token '' @ api_token h),
              (asc ''Content-Type'', asc ''application/json'')]
             [(asc ''id'', JStr d)] (timeout h) = RequestRaises e" for e
    using that by (simp add: get_document_def get_document_try_def)
  have resp: "(status \<noteq> 200 \<longrightarrow> get_document post h d = Inr (JNone, JNone)) \<and>
          ((\<exists>e. body = Inl e) \<longrightarrow> get_document post h d = Inr (JNone, JNone)) \<and>
          (\<forall>j. body = Inr j \<and> (\<forall>dd. j \<noteq> JDict dd) \<longrightarrow> get_document post h d = Inr (JNone, JNone)) \<and>
          (\<forall>j. body = Inr (JDict j) \<and> differs_from_zero (dict_get j (asc ''code'') JNone)
                \<longrightarrow> get_document post h d = Inr (JNone, JNone)) \<and>
          (\<forall>j. body = Inr (JDict j) \<and> (\<forall>dd. dict_get j (asc ''data'') (JDict []) \<noteq> JDict dd)
                \<longrightarrow> get_document post h d = Inr (JNone, JNone)) \<and>
          (\<forall>j data. api_base_url h \<noteq> [] \<and> api_token h \<noteq> [] \<and> status = 200 \<and>
                body = Inr (JDict j) \<and> \<not> differs_from_zero (dict_get j (asc ''code'') JNone) \<and>
                dict_get j (asc ''data'') (JDict []) = JDict data
                \<longrightarrow> get_document post h d =
                      Inr (if truthy (dict_get data (asc ''hPath'') JNone)
                           then dict_get data (asc ''hPath'') JNone else JStr d,
                           dict_get data (asc ''content'') (JStr [])))"
    if p: "post (api_base_url h @ asc ''/api/export/exportMdContent'')
             [(asc ''Authorization'', asc ''Token '' @ api_token h),
              (asc ''Content-Type'', asc ''application/json'')]
             [(asc ''id'', JStr d)] (timeout h) = Response status body" for status body
  proof (intro conjI allI impI)
    assume "status \<noteq> 200"
    then show "get_document post h d = Inr (JNone, JNone)"
      using p by (simp add: get_document_def get_document_try_def)
  next
    assume "\<exists>e. body = Inl e"
    then show "get_document post h d = Inr (JNone, JNone)"
      using p by (auto simp: get_document_def get_document_try_def)
  next
    fix j assume "body = Inr j \<and> (\<forall>dd. j \<noteq> JDict dd)"
    then show "get_document post h d = Inr (JNone, JNone)"
      using p by (cases j) (auto simp: get_document_def get_document_try_def)
  next
    fix j assume "body = Inr (JDict j) \<and> differs_from_zero (dict_get j (asc ''code'') JNone)"
    then show "get_document post h d = Inr (JNone, JNone)"
      using p by (auto simp: get_document_def get_document_try_def)
  next
    fix j assume a: "body = Inr (JDict j) \<and> (\<forall>dd. dict_get j (asc ''data'') (JDict []) \<noteq> JDict dd)"
    then show "get_document post h d = Inr (JNone, JNone)"
      using p by (cases "dict_get j (asc ''data'') (JDict [])")
        (auto simp: get_document_def get_document_try_def)
  next
    fix j data
    assume "api_base_url h \<noteq> [] \<and> api_token h \<noteq> [] \<and> status = 200 \<and>
                body = Inr (JDict j) \<and> \<not> differs_from_zero (dict_get j (asc ''code'') JNone) \<and>
                dict_get j (asc ''data'') (JDict []) = JDict data"
    then show "get_document post h d =
                      Inr (if truthy (dict_get data (asc ''hPath'') JNone)
                           then dict_get data (asc ''hPath'') JNone else JStr d,
                           dict_get data (asc ''content'') (JStr []))"
      using p by (simp add: get_document_def get_document_try_def Let_def)
  qed
  from total unconfigured raises resp show ?thesis by blast
qed

theorem get_document_total_witness:
  "get_document
     (\<lambda>url headers payload t.
        Response 200 (Inr (JDict [(asc ''code'', JInt 0),
                                  (asc ''data'', JDict [(asc ''hPath'', JStr (asc ''/notes/a'')),
                                                        (asc ''content'', JStr (asc ''hi''))])])))
     \<lparr>api_base_url = asc ''http://127.0.0.1:6806'', api_token = asc ''k'', timeout = 8\<rparr>
     (asc ''20240101000000-abcdefg'')
   = Inr (JStr (asc ''/notes/a''), JStr (asc ''hi'')) \<and>
   get_document
     (\<lambda>url headers payload t. Response 500 (Inl (OtherException [])))
     \<lparr>api_base_url = asc ''http://127.0.0.1:6806'', api_token = asc ''k'', timeout = 8\<rparr>
     (asc ''20240101000000-abcdefg'')
   = Inr (JNone, JNone)"
  using
    get_document_total [of
      "\<lambda>url headers payload t.
        Response 200 (Inr (JDict [(asc ''code'', JInt 0),
                                  (asc ''data'', JDict [(asc ''hPath'', JStr (asc ''/notes/a'')),
                                                        (asc ''content'', JStr (asc ''hi''))])]))"
      "\<lparr>api_base_url = asc ''http://127.0.0.1:6806'', api_token = asc ''k'', timeout = 8\<rparr>"
      "asc ''20240101000000-abcdefg''"]
    get_document_total [of
      "\<lambda>url headers payload t. Response 500 (Inl (OtherException []))"
      "\<lparr>api_base_url = asc ''http://127.0.0.1:6806'', api_token = asc ''k'', timeout = 8\<rparr>"
      "asc ''20240101000000-abcdefg''"]
  by (simp add: dict_get_def asc_def)

section \<open>Merging the collection\<close>

lemma bind_exn_simps [simp]:
  "bind_exn (Inl e) f = Inl e" "bind_exn (Inr x) f = f x"
  by (simp_all add: bind_exn_def)

lemma bind_exn_Inr: "bind_exn m f = Inr y \<longleftrightarrow> (\<exists>x. m = Inr x \<and> f x = Inr y)"
  by (cases m) auto

lemma map_exn_Inr:
  "map_exn f xs = Inr ys \<Longrightarrow> length ys = length xs \<and> (\<forall>y\<in>set ys. \<exists>x\<in>set xs. f x = Inr y)"
proof (induction xs arbitrary: ys)
  case Nil
  then show ?case by simp
next
  case (Cons x xs)
  then show ?case
    by (auto split: sum.splits)
qed

lemma header_not_sep:
  "s_file_branch @ x \<noteq> sep" "s_lbracket @ x \<noteq> sep" "s_manual_header @ x \<noteq> sep"
  "s_manual_empty \<noteq> sep" "s_folder_header @ x \<noteq> sep" "s_unknown_kind @ x \<noteq> sep"
  "s_invalid_item \<noteq> sep"
  by (simp_all add: s_file_branch_def s_lbracket_def s_manual_header_def s_manual_empty_def
      s_folder_header_def s_unknown_kind_def s_invalid_item_def sep_def asc_def)

lemma render_file_info_not_sep: "render_file_info fi = Inr b \<Longrightarrow> b \<noteq> sep"
  by (auto simp: render_file_info_def bind_exn_Inr header_not_sep split: if_splits)

lemma render_item_not_sep:
  assumes "render_item fmt it = Inr bs"
  shows "sep \<notin> set bs"
proof (cases "kind it = JStr (asc ''manual'')")
  case True
  with assms show ?thesis
    by (auto simp: render_item_def bind_exn_Inr header_not_sep [symmetric] split: if_splits)
next
  case nm: False
  show ?thesis
  proof (cases "kind it = JStr (asc ''text_file'')")
    case True
    with nm assms show ?thesis
      by (auto simp: render_item_def bind_exn_Inr header_not_sep [symmetric] split: if_splits)
  next
    case nt: False
    from nm nt assms obtain k where k: "kind it = JStr k"
      by (cases "kind it") (auto simp: render_item_def)
    show ?thesis
    proof (cases "startswith k (asc ''siyuan'')")
      case True
      with nm nt k assms show ?thesis
        by (auto simp: render_item_def bind_exn_Inr header_not_sep [symmetric] split: if_splits)
    next
      case ns: False
      show ?thesis
      proof (cases "k = asc ''folder''")
        case True
        with nm nt ns k assms obtain h fs blocks where
          bs: "bs = (s_folder_header @ h) # blocks" and m: "map_exn render_file_info fs = Inr blocks"
          by (auto simp: render_item_def bind_exn_Inr)
        from map_exn_Inr [OF m] have "\<forall>b\<in>set blocks. b \<noteq> sep"
          using render_file_info_not_sep by blast
        with bs show ?thesis
          using header_not_sep(5) [of h] by auto
      next
        case False
        with nm nt ns k assms show ?thesis
          by (auto simp: render_item_def header_not_sep [symmetric])
      qed
    qed
  qed
qed

lemma merge_lines_valid:
  "\<forall>it\<in>set its. truthy (payload it) \<and> (\<exists>bs. render_item fmt it = Inr bs) \<Longrightarrow>
   merge_lines fmt its acc =
     Inr (acc @ blocks_with_dividers (map (\<lambda>it. projr (render_item fmt it)) its))"
proof (induction its arbitrary: acc)
  case Nil
  then show ?case by simp
next
  case (Cons it rest)
  from Cons.prems obtain bs where bs: "render_item fmt it = Inr bs" and t: "truthy (payload it)"
    by auto
  from Cons.prems have rest: "\<forall>it\<in>set rest. truthy (payload it) \<and> (\<exists>bs. render_item fmt it = Inr bs)"
    by simp
  show ?case
  proof (cases rest)
    case Nil
    with bs t show ?thesis by simp
  next
    case (Cons it2 rest2)
    with bs t Cons.IH [OF rest] show ?thesis by simp
  qed
qed

lemma count_dividers:
  "\<forall>bs\<in>set bss. sep \<notin> set bs \<Longrightarrow> count_list (blocks_with_dividers bss) sep = length bss - 1"
  by (induction bss rule: blocks_with_dividers.induct) (simp_all add: count_list_0_iff)

text \<open>
  Where every item has a payload and renders, the merge is the blocks of the items in
  order with one divider between consecutive items: \<open>n\<close> items give \<open>n - 1\<close> dividers.
\<close>

lemma merge_lines_dividers:
  assumes "\<forall>it\<in>set its. truthy (payload it) \<and> (\<exists>bs. render_item fmt it = Inr bs)"
  shows "\<exists>ls. merge_lines fmt its [] = Inr ls \<and>
              ls = blocks_with_dividers (map (\<lambda>it. projr (render_item fmt it)) its) \<and>
              count_list ls sep = length its - 1"
proof -
  have "\<forall>bs\<in>set (map (\<lambda>it. projr (render_item fmt it)) its). sep \<notin> set bs"
    using assms render_item_not_sep by fastforce
  from count_dividers [OF this] merge_lines_valid [OF assms, of "[]"] show ?thesis
    by simp
qed

text \<open>
  The scenario of the specification: a manual text \<open>hello\<close>, a file with content
  \<open>world\<close> and a file with empty content give three blocks and two dividers, the last
  block carrying the empty-content marker.
\<close>

lemma merge_scenario:
  "merge_lines fmt
     [\<lparr>kind = JStr (asc ''manual''), payload = JDict [(asc ''text'', JStr (asc ''hello''))],
       item_id = JStr (asc ''i1'')\<rparr>,
      text_file_item (asc ''/d/a.txt'') (asc ''world'') 5 (asc ''world'') (asc ''i2''),
      text_file_item (asc ''/d/b.txt'') [] 0 (asc ''b.txt'') (asc ''i3'')] []
   = Inr [s_manual_header @ asc ''hello'' @ [10], sep,
          s_lbracket @ asc ''a.txt'' @ s_rbracket_nl @ asc ''world'' @ [10], sep,
          s_lbracket @ asc ''b.txt'' @ s_empty_content_rbracket_nl]"
proof -
  have s: "strip (asc ''hello'') = asc ''hello''" "strip (asc ''world'') = asc ''world''"
    "strip [] = []"
    by (simp_all add: strip_def lstrip_def rstrip_def isspace_def asc_def)
  have b: "path_basename (asc ''/d/a.txt'') = asc ''a.txt''"
    "path_basename (asc ''/d/b.txt'') = asc ''b.txt''"
    by (simp_all add: path_basename_def asc_def)
  have k: "asc ''text_file'' \<noteq> asc ''manual''" "asc ''hello'' \<noteq> []" "asc ''world'' \<noteq> []"
    "asc ''content'' \<noteq> asc ''file_path''"
    by (simp_all add: asc_def)
  show ?thesis
    by (simp add: render_item_def text_file_item_def payload_get_def dict_get_def val_strip_def
        basename_def s b k)
qed

text \<open>
  C3, at the failing input. A text-file item whose payload is the empty dict, followed
  by the manual text \<open>hello\<close>: the loop appends the invalid-item line and leaves the
  iteration with \<open>continue\<close>, before the separator. Two items give no divider, and the
  text put on the clipboard runs the two blocks together.
\<close>

theorem merge_lines_invalid_item_no_divider:
  "merge_lines (\<lambda>v. [])
     [\<lparr>kind = JStr (asc ''text_file''), payload = JDict [], item_id = JStr (asc ''i1'')\<rparr>,
      \<lparr>kind = JStr (asc ''manual''), payload = JDict [(asc ''text'', JStr (asc ''hello''))],
       item_id = JStr (asc ''i2'')\<rparr>] []
     = Inr [s_invalid_item, s_manual_header @ asc ''hello'' @ [10]] \<and>
   count_list [s_invalid_item, s_manual_header @ asc ''hello'' @ [10]] sep = 0 \<and>
   on_merge_and_copy (\<lambda>v. [])
     [\<lparr>label = [], user_data = to_dict
         \<lparr>kind = JStr (asc ''text_file''), payload = JDict [], item_id = JStr (asc ''i1'')\<rparr>\<rparr>,
      \<lparr>label = [], user_data = to_dict
         \<lparr>kind = JStr (asc ''manual''), payload = JDict [(asc ''text'', JStr (asc ''hello''))],
          item_id = JStr (asc ''i2'')\<rparr>\<rparr>]
     = Copied (s_invalid_item @ s_manual_header @ asc ''hello'' @ [10])"
proof -
  have s: "strip (asc ''hello'') = asc ''hello''"
    by (simp add: strip_def lstrip_def rstrip_def isspace_def asc_def)
  have k: "asc ''hello'' \<noteq> []" "asc ''payload'' \<noteq> asc ''kind''" "asc ''_id'' \<noteq> asc ''kind''"
    "asc ''_id'' \<noteq> asc ''payload''"
    by (simp_all add: asc_def)
  have m: "merge_lines (\<lambda>v. [])
     [\<lparr>kind = JStr (asc ''text_file''), payload = JDict [], item_id = JStr (asc ''i1'')\<rparr>,
      \<lparr>kind = JStr (asc ''manual''), payload = JDict [(asc ''text'', JStr (asc ''hello''))],
       item_id = JStr (asc ''i2'')\<rparr>] []
     = Inr [s_invalid_item, s_manual_header @ asc ''hello'' @ [10]]"
    by (simp add: render_item_def payload_get_def dict_get_def val_strip_def s k)
  have c: "count_list [s_invalid_item, s_manual_header @ asc ''hello'' @ [10]] sep = 0"
    using header_not_sep(3) [of "asc ''hello'' @ [10]"] header_not_sep(7) by simp
  have ne: "strip (s_invalid_item @ s_manual_header @ asc ''hello'' @ [10]) \<noteq> []"
    by (simp add: strip_def lstrip_def rstrip_def isspace_def asc_def s_invalid_item_def
        s_manual_header_def)
  have o: "on_merge_and_copy (\<lambda>v. [])
     [\<lparr>label = [], user_data = to_dict
         \<lparr>kind = JStr (asc ''text_file''), payload = JDict [], item_id = JStr (asc ''i1'')\<rparr>\<rparr>,
      \<lparr>label = [], user_data = to_dict
         \<lparr>kind = JStr (asc ''manual''), payload = JDict [(asc ''text'', JStr (asc ''hello''))],
          item_id = JStr (asc ''i2'')\<rparr>\<rparr>]
     = Copied (s_invalid_item @ s_manual_header @ asc ''hello'' @ [10])"
  proof -
    have col: "collect_items_from_list
       [\<lparr>label = [], user_data = to_dict
           \<lparr>kind = JStr (asc ''text_file''), payload = JDict [], item_id = JStr (asc ''i1'')\<rparr>\<rparr>,
        \<lparr>label = [], user_data = to_dict
           \<lparr>kind = JStr (asc ''manual''), payload = JDict [(asc ''text'', JStr (asc ''hello''))],
            item_id = JStr (asc ''i2'')\<rparr>\<rparr>]
       = Inr [\<lparr>kind = JStr (asc ''text_file''), payload = JDict [], item_id = JStr (asc ''i1'')\<rparr>,
              \<lparr>kind = JStr (asc ''manual''), payload = JDict [(asc ''text'', JStr (asc ''hello''))],
               item_id = JStr (asc ''i2'')\<rparr>]"
      by (simp add: collect_items_from_list_def to_dict_def from_dict_def subscript_def k)
    show ?thesis
      using ne by (simp add: on_merge_and_copy_def col m del: merge_lines.simps)
  qed
  from m c o show ?thesis by simp
qed

section \<open>Snapshot and restore\<close>

lemma strip_prefix: "\<exists>w. dropWhile isspace s = strip s @ w"
proof -
  have "rev (dropWhile isspace s) =
          takeWhile isspace (rev (dropWhile isspace s)) @ dropWhile isspace (rev (dropWhile isspace s))"
    by simp
  then have "dropWhile isspace s =
          rev (dropWhile isspace (rev (dropWhile isspace s))) @
          rev (takeWhile isspace (rev (dropWhile isspace s)))"
    by (metis rev_append rev_rev_ident)
  then show ?thesis
    by (auto simp: strip_def lstrip_def rstrip_def)
qed

lemma strip_hd: "strip s \<noteq> [] \<Longrightarrow> \<not> isspace (hd (strip s))"
proof -
  assume ne: "strip s \<noteq> []"
  obtain w where w: "dropWhile isspace s = strip s @ w"
    using strip_prefix by blast
  with ne have "dropWhile isspace s \<noteq> []" by auto
  then have "\<not> isspace (hd (dropWhile isspace s))"
    by (rule hd_dropWhile)
  with w ne show ?thesis by simp
qed

lemma strip_last: "strip s \<noteq> [] \<Longrightarrow> \<not> isspace (last (strip s))"
proof -
  assume ne: "strip s \<noteq> []"
  then have d: "dropWhile isspace (rev (dropWhile isspace s)) \<noteq> []"
    by (simp add: strip_def lstrip_def rstrip_def)
  have "last (strip s) = hd (dropWhile isspace (rev (dropWhile isspace s)))"
    using d by (simp add: strip_def lstrip_def rstrip_def last_rev)
  with hd_dropWhile [OF d] show ?thesis by simp
qed

lemma strip_idem: "strip (strip s) = strip s"
proof (cases "strip s = []")
  case True
  have "strip [] = []" by (simp add: strip_def lstrip_def rstrip_def)
  with True show ?thesis by simp
next
  case False
  from strip_hd [OF False] False have l: "dropWhile isspace (strip s) = strip s"
    by (cases "strip s") auto
  from strip_last [OF False] False have "dropWhile isspace (rev (strip s)) = rev (strip s)"
    by (cases "rev (strip s)") (auto simp: hd_rev)
  then have "rstrip (strip s) = strip s"
    by (simp add: rstrip_def)
  with l show ?thesis
    by (simp add: strip_def [of "strip s"] lstrip_def)
qed

lemma key_distinct:
  "asc ''payload'' \<noteq> asc ''kind''" "asc ''_id'' \<noteq> asc ''kind''" "asc ''_id'' \<noteq> asc ''payload''"
  by (simp_all add: asc_def)

lemma from_dict_to_dict: "from_dict (JDict (to_dict it)) = Inr it"
  by (simp add: from_dict_def subscript_def to_dict_def key_distinct)

lemma to_dict_not_empty: "to_dict it \<noteq> []"
  by (simp add: to_dict_def)

lemma row_for_ok: "row_for fmt it r \<Longrightarrow> row_ok fmt r"
  by (simp add: row_ok_def row_for_def from_dict_to_dict)

lemma row_ok_item:
  "row_ok fmt r \<Longrightarrow> \<exists>it. from_dict (JDict (user_data r)) = Inr it \<and> row_for fmt it r"
  by (auto simp: row_ok_def split: sum.splits)

lemma collect_valid:
  "list_all (row_ok fmt) rs \<Longrightarrow>
   \<exists>its. collect_items_from_list rs = Inr its \<and> list_all2 (row_for fmt) its rs"
proof (induction rs)
  case Nil
  then show ?case by (simp add: collect_items_from_list_def)
next
  case (Cons r rs)
  from Cons.prems obtain it where it: "from_dict (JDict (user_data r)) = Inr it" "row_for fmt it r"
    using row_ok_item by auto
  from Cons obtain its where its: "collect_items_from_list rs = Inr its"
      "list_all2 (row_for fmt) its rs"
    by auto
  from it(2) have "user_data r \<noteq> []"
    by (simp add: row_for_def to_dict_not_empty)
  with it its have "collect_items_from_list (r # rs) = Inr (it # its)"
    by (simp add: collect_items_from_list_def)
  with it(2) its(2) show ?case by simp
qed

lemma save_list_data_frame [simp]:
  "items (save_list_data io w) = items w" "rows (save_list_data io w) = rows w"
  by (simp_all add: save_list_data_def Let_def split: cfg_file.splits jval.splits)

lemma rows_valid_save [simp]: "rows_valid fmt (save_list_data io w) = rows_valid fmt w"
  by (simp add: rows_valid_def)

lemma rows_valid_add_item:
  "rows_valid fmt w \<Longrightarrow> rows_valid fmt (add_item fmt io it w)"
proof (cases "bind_exn (icon_for_kind (kind it)) (\<lambda>c. display_label fmt it)")
  case (Inl e)
  moreover assume "rows_valid fmt w"
  ultimately show ?thesis by (simp add: add_item_def rows_valid_def)
next
  case (Inr l)
  then have "row_for fmt it \<lparr>label = l, user_data = to_dict it\<rparr>"
    by (simp add: row_for_def)
  then have "row_ok fmt \<lparr>label = l, user_data = to_dict it\<rparr>"
    by (rule row_for_ok)
  moreover assume "rows_valid fmt w"
  ultimately show ?thesis using Inr by (simp add: add_item_def rows_valid_def)
qed

lemma rows_valid_moved:
  "list_all (row_ok fmt) rs \<Longrightarrow> rows_valid fmt (on_list_item_moved io (w\<lparr>rows := rs\<rparr>))"
  by (simp add: on_list_item_moved_def rows_valid_def split: sum.splits)

lemma load_items_valid:
  "list_all (row_ok fmt) (rows w) \<Longrightarrow> list_all (row_ok fmt) (rows (load_items fmt es w))"
proof (induction es arbitrary: w)
  case Nil
  then show ?case by simp
next
  case (Cons e es)
  show ?case
  proof (cases "from_dict e")
    case (Inl x)
    with Cons show ?thesis by simp
  next
    case (Inr it)
    show ?thesis
    proof (cases "bind_exn (icon_for_kind (kind it)) (\<lambda>c. display_label fmt it)")
      case (Inl x)
      with Inr Cons.prems Cons.IH [of "w\<lparr>items := items w @ [it]\<rparr>"] show ?thesis by simp
    next
      case l: (Inr l)
      then have "row_for fmt it \<lparr>label = l, user_data = to_dict it\<rparr>"
        by (simp add: row_for_def)
      then have "row_ok fmt \<lparr>label = l, user_data = to_dict it\<rparr>"
        by (rule row_for_ok)
      with Cons.prems have "list_all (row_ok fmt)
          (rows (w\<lparr>items := items w @ [it], rows := rows w @ [\<lparr>label = l, user_data = to_dict it\<rparr>]\<rparr>))"
        by simp
      from Cons.IH [OF this] Inr l show ?thesis by simp
    qed
  qed
qed

lemma rows_valid_load: "rows_valid fmt (load_list_data fmt (fresh d))"
proof -
  have "list_all (row_ok fmt) (rows (load_items fmt es (fresh d)))" for es
    by (rule load_items_valid) (simp add: fresh_def)
  then show ?thesis
    by (auto simp: rows_valid_def load_list_data_def fresh_def
        split: cfg_file.splits sum.splits)
qed

lemma label_file:
  "\<exists>l. bind_exn (icon_for_kind (kind (text_file_item fp c n dn uid)))
          (\<lambda>x. display_label fmt (text_file_item fp c n dn uid)) = Inr l"
  by (simp add: text_file_item_def icon_for_kind_def display_label_def payload_get_def
      dict_get_def basename_def size_str_def asc_def)


lemma reachable_rows_valid: "reachable fmt w \<Longrightarrow> rows_valid fmt w"
proof (induction rule: reachable.induct)
  case (r_start d)
  show ?case by (rule rows_valid_load)
next
  case (r_manual w io uid text0)
  then show ?case
    by (simp add: submit_manual_def on_manual_submitted_def rows_valid_add_item)
next
  case (r_file w io file_path body n display_name uid)
  then show ?case by (simp add: rows_valid_add_item)
next
  case (r_fetched w doc_id tc uid it io)
  then show ?case by (simp add: rows_valid_add_item)
next
  case (r_deleted w io sel)
  then have "list_all (row_ok fmt) (nths (rows w) (- sel))"
    using set_nths_subset [of "rows w" "- sel"] by (auto simp: rows_valid_def list_all_iff)
  from rows_valid_moved [OF this] show ?case
    by (simp add: delete_rows_def)
next
  case (r_moved w io i j)
  show ?case
  proof (cases "i < length (rows w)")
    case False
    with r_moved show ?thesis by (simp add: move_row_def)
  next
    case True
    from r_moved.IH have a: "\<forall>r\<in>set (rows w). row_ok fmt r"
      by (simp add: rows_valid_def list_all_iff)
    have "set (take i (rows w) @ drop (Suc i) (rows w)) \<subseteq> set (rows w)"
      using set_take_subset [of i "rows w"] set_drop_subset [of "Suc i" "rows w"] by auto
    then have "set (take j (take i (rows w) @ drop (Suc i) (rows w)) @ [rows w ! i] @
                 drop j (take i (rows w) @ drop (Suc i) (rows w))) \<subseteq> set (rows w)"
      using set_take_subset [of j "take i (rows w) @ drop (Suc i) (rows w)"]
        set_drop_subset [of j "take i (rows w) @ drop (Suc i) (rows w)"] True
      by auto
    with a have "list_all (row_ok fmt)
        (take j (take i (rows w) @ drop (Suc i) (rows w)) @ [rows w ! i] @
         drop j (take i (rows w) @ drop (Suc i) (rows w)))"
      unfolding list_all_iff by blast
    from rows_valid_moved [OF this] True show ?thesis
      by (simp add: move_row_def Let_def)
  qed
next
  case (r_cleared w io)
  then show ?case
    by (auto simp: on_clear_list_def rows_valid_def)
qed

lemma load_items_rows:
  "list_all2 (row_for fmt) its rs \<Longrightarrow>
   load_items fmt (map (\<lambda>r. JDict (user_data r)) rs) w =
     w\<lparr>items := items w @ its, rows := rows w @ rs\<rparr>"
proof (induction arbitrary: w rule: list_all2_induct)
  case Nil
  then show ?case by simp
next
  case (Cons it its r rs)
  from Cons.hyps(1) have "r = \<lparr>label = label r, user_data = to_dict it\<rparr>"
    by (simp add: row_for_def)
  with Cons show ?case
    by (simp add: row_for_def from_dict_to_dict)
qed

lemma dict_get_dict_set: "dict_get (dict_set k v d) k dflt = v"
  by (induction d) (auto simp: dict_get_def)


lemma saved_content:
  assumes "writable w"
  shows "\<exists>d. content (cfg_disk (save_list_data IoOk w)) =
              Doc (JDict (dict_set (asc ''list_items'')
                     (JList (map (\<lambda>r. JDict (user_data r))
                               (filter (\<lambda>r. user_data r \<noteq> []) (rows w)))) d))"
proof -
  from assms obtain v where v: "snapshot_doc w = Some v" "encodable v"
    by (auto simp: writable_def split: option.splits)
  then obtain d where d:
    "(case content (cfg_disk w) of Doc x \<Rightarrow> x | _ \<Rightarrow> JDict []) = JDict d"
    "v = JDict (dict_set (asc ''list_items'')
                     (JList (map (\<lambda>r. JDict (user_data r))
                               (filter (\<lambda>r. user_data r \<noteq> []) (rows w)))) d)"
    by (auto simp: snapshot_doc_def split: jval.splits)
  from v(2) d have "content (cfg_disk (save_list_data IoOk w)) = Doc v"
    by (simp add: save_list_data_def Let_def write_json_def)
  with d(2) show ?thesis by blast
qed

lemma roundtrip_rows:
  assumes m: "rows_valid fmt w" and s: "writable w"
  shows "\<exists>its. collect_items_from_list (rows w) = Inr its \<and>
           load_list_data fmt (fresh (cfg_disk (save_list_data IoOk w))) =
             \<lparr>items = its, rows = rows w, cfg_disk = cfg_disk (save_list_data IoOk w)\<rparr>"
proof -
  from m obtain its where its: "collect_items_from_list (rows w) = Inr its"
      "list_all2 (row_for fmt) its (rows w)"
    using collect_valid by (auto simp: rows_valid_def)
  then have "\<forall>r\<in>set (rows w). user_data r \<noteq> []"
    by (auto simp: list_all2_conv_all_nth in_set_conv_nth row_for_def to_dict_not_empty)
  then have f: "filter (\<lambda>r. user_data r \<noteq> []) (rows w) = rows w"
    by simp
  from saved_content [OF s] f obtain d where
    d: "content (cfg_disk (save_list_data IoOk w)) =
          Doc (JDict (dict_set (asc ''list_items'')
                 (JList (map (\<lambda>r. JDict (user_data r)) (rows w))) d))"
    by auto
  have "load_list_data fmt (fresh (cfg_disk (save_list_data IoOk w))) =
             \<lparr>items = its, rows = rows w, cfg_disk = cfg_disk (save_list_data IoOk w)\<rparr>"
  proof (cases "rows w = []")
    case True
    with its(2) have "its = []" by simp
    with True d show ?thesis
      by (simp add: load_list_data_def fresh_def payload_get_def dict_get_dict_set)
  next
    case False
    with d load_items_rows [OF its(2)] show ?thesis
      by (simp add: load_list_data_def fresh_def payload_get_def dict_get_dict_set py_iter_def)
  qed
  with its(1) show ?thesis by blast
qed

lemma add_item_labelled:
  "bind_exn (icon_for_kind (kind it)) (\<lambda>c. display_label fmt it) = Inr l \<Longrightarrow>
   add_item fmt io it w =
     save_list_data io (w\<lparr>items := items w @ [it],
                          rows := rows w @ [\<lparr>label = l, user_data = to_dict it\<rparr>]\<rparr>)"
  by (simp add: add_item_def)

lemma load_absent:
  "load_list_data fmt \<lparr>items = [], rows = [], cfg_disk = \<lparr>content = Absent, write_attempts = n\<rparr>\<rparr> =
     \<lparr>items = [], rows = [], cfg_disk = \<lparr>content = Absent, write_attempts = n\<rparr>\<rparr>"
  by (simp add: load_list_data_def)

lemma load_malformed:
  "content d = Malformed \<Longrightarrow> load_list_data fmt (fresh d) = fresh d"
  by (simp add: load_list_data_def fresh_def)

text \<open>
  C4, as stated, fails: a snapshot is only as good as its write. A file whose name
  holds a surrogate code point (what \<open>os.walk\<close> returns for a name that is not UTF-8)
  is added to a window started on an absent configuration file. \<open>json.dump\<close> cannot
  encode the document, the file is left truncated, and the restore finds nothing: the
  collection had one item, the restored one has none.
\<close>

theorem restore_snapshot_surrogate_counterexample:
  "reachable (\<lambda>v. [])
     (add_item (\<lambda>v. []) IoOk
        (text_file_item [47, 0xDCE9] (asc ''x'') 3 (asc ''x'') (asc ''u1''))
        (load_list_data (\<lambda>v. []) (fresh \<lparr>content = Absent, write_attempts = 0\<rparr>))) \<and>
   collect_items_from_list (rows
     (add_item (\<lambda>v. []) IoOk
        (text_file_item [47, 0xDCE9] (asc ''x'') 3 (asc ''x'') (asc ''u1''))
        (load_list_data (\<lambda>v. []) (fresh \<lparr>content = Absent, write_attempts = 0\<rparr>)))) =
     Inr [text_file_item [47, 0xDCE9] (asc ''x'') 3 (asc ''x'') (asc ''u1'')] \<and>
   items (load_list_data (\<lambda>v. []) (fresh (cfg_disk (save_list_data IoOk
     (add_item (\<lambda>v. []) IoOk
        (text_file_item [47, 0xDCE9] (asc ''x'') 3 (asc ''x'') (asc ''u1''))
        (load_list_data (\<lambda>v. []) (fresh \<lparr>content = Absent, write_attempts = 0\<rparr>))))))) = [] \<and>
   rows (load_list_data (\<lambda>v. []) (fresh (cfg_disk (save_list_data IoOk
     (add_item (\<lambda>v. []) IoOk
        (text_file_item [47, 0xDCE9] (asc ''x'') 3 (asc ''x'') (asc ''u1''))
        (load_list_data (\<lambda>v. []) (fresh \<lparr>content = Absent, write_attempts = 0\<rparr>))))))) = []"
proof -
  let ?it = "text_file_item [47, 0xDCE9] (asc ''x'') 3 (asc ''x'') (asc ''u1'')"
  let ?w0 = "load_list_data (\<lambda>v. []) (fresh \<lparr>content = Absent, write_attempts = 0\<rparr>)"
  let ?w = "add_item (\<lambda>v. []) IoOk ?it ?w0"
  have r: "reachable (\<lambda>v. []) ?w"
    by (intro reachable.intros)
  obtain l where l: "bind_exn (icon_for_kind (kind ?it)) (\<lambda>x. display_label (\<lambda>v. []) ?it) = Inr l"
    using label_file by blast
  have ne: "\<not> encodable (JDict [(asc ''list_items'', JList [JDict (to_dict ?it)])])"
    by (simp add: to_dict_def text_file_item_def encodable_str_def)
  have rs: "rows ?w = [\<lparr>label = l, user_data = to_dict ?it\<rparr>]"
    by (simp add: add_item_labelled [OF l] fresh_def load_absent)
  have dk: "content (cfg_disk ?w) = Malformed"
    using ne
    by (simp add: add_item_labelled [OF l] fresh_def load_absent save_list_data_def Let_def
        write_json_def to_dict_not_empty)
  have c: "collect_items_from_list (rows ?w) = Inr [?it]"
    by (simp add: rs collect_items_from_list_def to_dict_not_empty from_dict_to_dict)
  have dk2: "content (cfg_disk (save_list_data IoOk ?w)) = Malformed"
    using ne
    by (simp add: save_list_data_def Let_def dk rs write_json_def to_dict_not_empty)
  have e: "load_list_data (\<lambda>v. []) (fresh (cfg_disk (save_list_data IoOk ?w))) =
             fresh (cfg_disk (save_list_data IoOk ?w))"
    by (rule load_malformed [OF dk2])
  have i: "items (load_list_data (\<lambda>v. []) (fresh (cfg_disk (save_list_data IoOk ?w)))) = []"
    and j: "rows (load_list_data (\<lambda>v. []) (fresh (cfg_disk (save_list_data IoOk ?w)))) = []"
    unfolding e by (simp_all add: fresh_def)
  show ?thesis
    by (intro conjI r c i j)
qed

text \<open>
  C4, amended. For a window reached through the public operations (started by
  \<open>load_list_data\<close>, then submit-manual, processed files, fetched documents, delete,
  move, clear) whose snapshot can be written (the configuration document is absent,
  unreadable or an object, no string of it or of the rows holds a surrogate code point,
  and the machine lets the write through), restoring the snapshot into an empty window
  yields the rows as they were and, as \<open>self.items\<close>, the ordered sequence of
  (id, kind, payload) that \<open>collect_items_from_list\<close> read from the rows before the
  snapshot: every item comes back with its original id, and no id is drawn.
\<close>

theorem restore_snapshot_written_roundtrip:
  assumes "reachable fmt w" and "writable w"
  shows "rows (load_list_data fmt (fresh (cfg_disk (save_list_data IoOk w)))) = rows w \<and>
         collect_items_from_list (rows w) =
           Inr (items (load_list_data fmt (fresh (cfg_disk (save_list_data IoOk w))))) \<and>
         collect_items_from_list
             (rows (load_list_data fmt (fresh (cfg_disk (save_list_data IoOk w))))) =
           collect_items_from_list (rows w) \<and>
         map (\<lambda>it. (item_id it, kind it, payload it))
             (items (load_list_data fmt (fresh (cfg_disk (save_list_data IoOk w))))) =
           map (\<lambda>it. (item_id it, kind it, payload it)) (projr (collect_items_from_list (rows w)))"
proof -
  from roundtrip_rows [OF reachable_rows_valid [OF assms(1)] assms(2)]
  obtain its where "collect_items_from_list (rows w) = Inr its"
    "load_list_data fmt (fresh (cfg_disk (save_list_data IoOk w))) =
       \<lparr>items = its, rows = rows w, cfg_disk = cfg_disk (save_list_data IoOk w)\<rparr>"
    by blast
  then show ?thesis by simp
qed

theorem restore_snapshot_written_roundtrip_witness:
  "reachable (\<lambda>v. [])
     (add_item (\<lambda>v. []) IoOk
        (text_file_item (asc ''/d/b.txt'') [] 0 (asc ''b.txt'') (asc ''u2''))
        (add_item (\<lambda>v. []) IoOk
           (text_file_item (asc ''/d/a.txt'') (asc ''world'') 5 (asc ''world'') (asc ''u1''))
           (load_list_data (\<lambda>v. []) (fresh \<lparr>content = Absent, write_attempts = 0\<rparr>)))) \<and>
   writable
     (add_item (\<lambda>v. []) IoOk
        (text_file_item (asc ''/d/b.txt'') [] 0 (asc ''b.txt'') (asc ''u2''))
        (add_item (\<lambda>v. []) IoOk
           (text_file_item (asc ''/d/a.txt'') (asc ''world'') 5 (asc ''world'') (asc ''u1''))
           (load_list_data (\<lambda>v. []) (fresh \<lparr>content = Absent, write_attempts = 0\<rparr>)))) \<and>
   map (\<lambda>it. (item_id it, kind it, payload it))
     (items (load_list_data (\<lambda>v. []) (fresh (cfg_disk (save_list_data IoOk
        (add_item (\<lambda>v. []) IoOk
           (text_file_item (asc ''/d/b.txt'') [] 0 (asc ''b.txt'') (asc ''u2''))
           (add_item (\<lambda>v. []) IoOk
              (text_file_item (asc ''/d/a.txt'') (asc ''world'') 5 (asc ''world'') (asc ''u1''))
              (load_list_data (\<lambda>v. []) (fresh \<lparr>content = Absent, write_attempts = 0\<rparr>))))))))) =
     [(JStr (asc ''u1''), JStr (asc ''text_file''),
       JDict [(asc ''file_path'', JStr (asc ''/d/a.txt'')), (asc ''content'', JStr (asc ''world'')),
              (asc ''size'', JInt 5), (asc ''display_name'', JStr (asc ''world''))]),
      (JStr (asc ''u2''), JStr (asc ''text_file''),
       JDict [(asc ''file_path'', JStr (asc ''/d/b.txt'')), (asc ''content'', JStr []),
              (asc ''size'', JInt 0), (asc ''display_name'', JStr (asc ''b.txt''))])]"
proof -
  let ?a = "text_file_item (asc ''/d/a.txt'') (asc ''world'') 5 (asc ''world'') (asc ''u1'')"
  let ?b = "text_file_item (asc ''/d/b.txt'') [] 0 (asc ''b.txt'') (asc ''u2'')"
  let ?w0 = "load_list_data (\<lambda>v. []) (fresh \<lparr>content = Absent, write_attempts = 0\<rparr>)"
  let ?w1 = "add_item (\<lambda>v. []) IoOk ?a ?w0"
  let ?w2 = "add_item (\<lambda>v. []) IoOk ?b ?w1"
  have r: "reachable (\<lambda>v. []) ?w2"
    by (intro reachable.intros)
  obtain la where la: "bind_exn (icon_for_kind (kind ?a)) (\<lambda>x. display_label (\<lambda>v. []) ?a) = Inr la"
    using label_file by blast
  obtain lb where lb: "bind_exn (icon_for_kind (kind ?b)) (\<lambda>x. display_label (\<lambda>v. []) ?b) = Inr lb"
    using label_file by blast
  have ea: "encodable (JDict (to_dict ?a))" and eb: "encodable (JDict (to_dict ?b))"
    by (simp_all add: to_dict_def text_file_item_def encodable_str_def asc_def)
  have ek: "encodable_str (asc ''list_items'')"
    by (simp add: encodable_str_def asc_def)
  have r1: "rows ?w1 = [\<lparr>label = la, user_data = to_dict ?a\<rparr>]"
    by (simp add: add_item_labelled [OF la] fresh_def load_absent)
  have d1: "content (cfg_disk ?w1) = Doc (JDict [(asc ''list_items'', JList [JDict (to_dict ?a)])])"
    using ea ek
    by (simp add: add_item_labelled [OF la] fresh_def load_absent save_list_data_def Let_def
        write_json_def to_dict_not_empty)
  have r2: "rows ?w2 = [\<lparr>label = la, user_data = to_dict ?a\<rparr>, \<lparr>label = lb, user_data = to_dict ?b\<rparr>]"
    by (simp add: add_item_labelled [OF lb] r1)
  have d2: "content (cfg_disk ?w2) =
      Doc (JDict [(asc ''list_items'', JList [JDict (to_dict ?a), JDict (to_dict ?b)])])"
    using ea eb ek
    by (simp add: add_item_labelled [OF lb] save_list_data_def Let_def write_json_def r1 d1
        to_dict_not_empty)
  have wr: "writable ?w2"
    using ea eb ek
    by (simp add: writable_def snapshot_doc_def d2 r2 to_dict_not_empty)
  have c: "collect_items_from_list (rows ?w2) = Inr [?a, ?b]"
    by (simp add: r2 collect_items_from_list_def to_dict_not_empty from_dict_to_dict)
  from restore_snapshot_written_roundtrip [OF r wr]
  have "collect_items_from_list (rows ?w2) =
      Inr (items (load_list_data (\<lambda>v. []) (fresh (cfg_disk (save_list_data IoOk ?w2)))))"
    by blast
  with c have i: "items (load_list_data (\<lambda>v. []) (fresh (cfg_disk (save_list_data IoOk ?w2)))) = [?a, ?b]"
    by simp
  have m: "map (\<lambda>it. (item_id it, kind it, payload it))
     (items (load_list_data (\<lambda>v. []) (fresh (cfg_disk (save_list_data IoOk ?w2))))) =
     [(JStr (asc ''u1''), JStr (asc ''text_file''),
       JDict [(asc ''file_path'', JStr (asc ''/d/a.txt'')), (asc ''content'', JStr (asc ''world'')),
              (asc ''size'', JInt 5), (asc ''display_name'', JStr (asc ''world''))]),
      (JStr (asc ''u2''), JStr (asc ''text_file''),
       JDict [(asc ''file_path'', JStr (asc ''/d/b.txt'')), (asc ''content'', JStr []),
              (asc ''size'', JInt 0), (asc ''display_name'', JStr (asc ''b.txt''))])]"
    unfolding i by (simp add: text_file_item_def)
  show ?thesis
    by (intro conjI r wr m)
qed

section \<open>Text extraction\<close>

lemma ext_literals_distinct:
  "asc ''.doc'' \<noteq> asc ''.csv''" "asc ''.doc'' \<noteq> asc ''.tsv''"
  "asc ''.txt'' \<noteq> asc ''.csv''" "asc ''.txt'' \<noteq> asc ''.tsv''" "asc ''.txt'' \<noteq> asc ''.doc''"
  "asc ''.txt'' \<noteq> asc ''.docx''" "asc ''.txt'' \<noteq> asc ''.xlsx''" "asc ''.txt'' \<noteq> asc ''.xls''"
  "asc ''.csv'' \<noteq> asc ''.tsv''"
  by (simp_all add: asc_def)

text \<open>Only the delimited branch lets an exception out.\<close>

lemma read_text_raises_only_delimited:
  assumes "read_text_from_any_file env path = Inl e"
  shows "py_lower (path_ext path) = asc ''.csv'' \<or> py_lower (path_ext path) = asc ''.tsv''"
proof (rule ccontr)
  assume "\<not> ?thesis"
  then have "\<exists>s. read_text_from_any_file env path = Inr s"
    by (auto simp: read_text_from_any_file_def Let_def split: sum.splits)
  with assms show False by simp
qed

lemma read_text_delimited_propagates:
  assumes "py_lower (path_ext path) = asc ''.csv'' \<or> py_lower (path_ext path) = asc ''.tsv''"
    and "open_text env path = Inl e"
  shows "read_text_from_any_file env path = Inl e"
  using assms by (auto simp: read_text_from_any_file_def Let_def)

text \<open>
  C1, at the failing input. On a machine where \<open>notes.csv\<close> does not exist,
  \<open>read_text_from_any_file\<close> lets the \<open>FileNotFoundError\<close> of \<open>open\<close> out to its
  caller, while for \<open>notes.txt\<close> the same failure of the same call comes back as the
  bracketed message.
\<close>

theorem read_text_csv_missing_file_raises:
  "read_text_from_any_file bare_env (asc ''notes.csv'') = Inl (FileNotFoundError (asc ''notes.csv'')) \<and>
   read_text_from_any_file bare_env (asc ''notes.txt'') =
     Inr (s_read_file_failed @ asc ''notes.txt'' @ asc '']'' @ [10] @ asc ''notes.txt'')"
proof -
  have e: "py_lower (path_ext (asc ''notes.csv'')) = asc ''.csv''"
    "py_lower (path_ext (asc ''notes.txt'')) = asc ''.txt''"
    by (simp_all add: py_lower_def path_ext_def path_basename_def asc_def Let_def)
  have o: "open_text bare_env (asc ''notes.csv'') = Inl (FileNotFoundError (asc ''notes.csv''))"
    "open_text bare_env (asc ''notes.txt'') = Inl (FileNotFoundError (asc ''notes.txt''))"
    by (simp_all add: bare_env_def)
  show ?thesis
    by (simp add: read_text_from_any_file_def Let_def e o ext_literals_distinct)
qed

lemma csv_lines: "file_lines (asc ''a,b'' @ [10] @ asc ''1,2'') = [asc ''a,b'' @ [10], asc ''1,2'']"
  by (simp add: file_lines_def asc_def)

lemma csv_rows:
  "csv_reader 44 [asc ''a,b'' @ [10], asc ''1,2''] = Inr [[asc ''a'', asc ''b''], [asc ''1'', asc ''2'']]"
  by (simp add: csv_reader_def process_line_def parse_process_char_def start_field_def
      parse_add_char_def parse_save_field_def parse_reset_def is_newline_def asc_def)

text \<open>
  C9. A \<open>.csv\<close> file whose decoded text is \<open>a,b\<close>, a newline, \<open>1,2\<close> extracts to
  \<open>a\<close>, tab, \<open>b\<close>, newline, \<open>1\<close>, tab, \<open>2\<close>.
\<close>

theorem csv_scenario:
  "py_lower (path_ext path) = asc ''.csv'' \<Longrightarrow>
   open_text env path = Inr (asc ''a,b'' @ [10] @ asc ''1,2'') \<Longrightarrow>
   read_text_from_any_file env path =
     Inr (asc ''a'' @ [9] @ asc ''b'' @ [10] @ asc ''1'' @ [9] @ asc ''2'')"
proof -
  assume e: "py_lower (path_ext path) = asc ''.csv''"
    and o: "open_text env path = Inr (asc ''a,b'' @ [10] @ asc ''1,2'')"
  have "csv_reader 44 (file_lines (asc ''a,b'' @ [10] @ asc ''1,2'')) =
          Inr [[asc ''a'', asc ''b''], [asc ''1'', asc ''2'']]"
    by (simp only: csv_lines csv_rows)
  then have "bind_exn (csv_reader 44 (file_lines (asc ''a,b'' @ [10] @ asc ''1,2'')))
               (\<lambda>rs. Inr (join [10] (map (join [9]) rs))) =
             Inr (asc ''a'' @ [9] @ asc ''b'' @ [10] @ asc ''1'' @ [9] @ asc ''2'')"
    by (simp only: bind_exn_simps) simp
  then show ?thesis
    unfolding read_text_from_any_file_def Let_def e o by (simp only: bind_exn_simps) simp
qed

theorem csv_scenario_witness:
  "py_lower (path_ext (asc ''data.CSV'')) = asc ''.csv'' \<and>
   read_text_from_any_file
     (bare_env\<lparr>open_text := (\<lambda>p. Inr (asc ''a,b'' @ [10] @ asc ''1,2''))\<rparr>) (asc ''data.CSV'') =
     Inr (asc ''a'' @ [9] @ asc ''b'' @ [10] @ asc ''1'' @ [9] @ asc ''2'')"
proof -
  have e: "py_lower (path_ext (asc ''data.CSV'')) = asc ''.csv''"
    by (simp add: py_lower_def path_ext_def path_basename_def asc_def Let_def)
  have o: "open_text (bare_env\<lparr>open_text := (\<lambda>p. Inr (asc ''a,b'' @ [10] @ asc ''1,2''))\<rparr>)
             (asc ''data.CSV'') = Inr (asc ''a,b'' @ [10] @ asc ''1,2'')"
    by simp
  from csv_scenario [OF e o] e show ?thesis by simp
qed

text \<open>
  C2, as stated, fails: the first five methods are accepted on their prefix test alone.
  Where \<open>antiword\<close> exits with code 0 and no output and \<open>catdoc\<close> would give \<open>text\<close>, the
  extraction returns the empty string of \<open>antiword\<close>.
\<close>

theorem read_doc_empty_result_counterexample:
  "read_text_from_any_file
     (bare_env\<lparr>run := (\<lambda>cmd. if cmd = [asc ''antiword'', asc ''a.doc''] then Inr (0, [], [])
                         else if cmd = [asc ''catdoc'', asc ''a.doc''] then Inr (0, asc ''text'', [])
                         else Inl (FileNotFoundError (hd cmd)))\<rparr>) (asc ''a.doc'') = Inr [] \<and>
   read_doc_file_with_catdoc
     (bare_env\<lparr>run := (\<lambda>cmd. if cmd = [asc ''antiword'', asc ''a.doc''] then Inr (0, [], [])
                         else if cmd = [asc ''catdoc'', asc ''a.doc''] then Inr (0, asc ''text'', [])
                         else Inl (FileNotFoundError (hd cmd)))\<rparr>) (asc ''a.doc'') = asc ''text''"
proof -
  have e: "py_lower (path_ext (asc ''a.doc'')) = asc ''.doc''"
    by (simp add: py_lower_def path_ext_def path_basename_def asc_def Let_def)
  have n: "asc ''catdoc'' \<noteq> asc ''antiword''" by (simp add: asc_def)
  have p: "\<not> startswith [] p_antiword_missing" "\<not> startswith [] p_antiword_failed"
    by (simp_all add: p_antiword_missing_def p_antiword_failed_def asc_def)
  show ?thesis
    using p
    by (simp add: read_text_from_any_file_def Let_def e ext_literals_distinct read_doc_def
        read_doc_file_with_antiword_def read_doc_file_with_catdoc_def bare_env_def n)
qed

lemma install_guide_not_blank: "strip install_guide \<noteq> []"
proof -
  have "\<not> isspace 91" by (simp add: isspace_def)
  moreover have "91 \<in> set install_guide" by (simp add: install_guide_def asc_def)
  ultimately have "\<not> (\<forall>c\<in>set install_guide. isspace c)" by blast
  then have "dropWhile isspace install_guide \<noteq> []"
    by (simp add: dropWhile_eq_Nil_conv)
  then show ?thesis
    using strip_prefix [of install_guide]
    by (metis append_is_Nil_conv dropWhile_eq_Nil_conv lstrip_def rev_is_Nil_conv rstrip_def
        set_rev strip_def hd_dropWhile hd_in_set)
qed

text \<open>
  C2, amended. For a \<open>.doc\<close> path the extraction never raises and tries the six
  methods in strict order (win32com, antiword, catdoc, unoconv, textract, python-docx,
  each only where it is available), returning the result of the first whose result
  matches no known failure prefix, whether or not that result is empty; the
  python-docx text is taken when it is not blank. When no method gives such a result
  the returned value is the stripped installation guide, which is not empty. This is
  stated for the runs in which no helper answers with a failure message that the
  branch does not test (time-out, other exception, unusable \<open>unoconv\<close>); what happens
  there is left open.
\<close>

theorem read_doc_first_accepted:
  "py_lower (path_ext path) = asc ''.doc'' \<Longrightarrow> \<not> untested_failure env path \<Longrightarrow>
   read_text_from_any_file env path =
     Inr (case List.find fst (doc_attempts env path) of
            Some a \<Rightarrow> snd a
          | None \<Rightarrow> strip install_guide) \<and>
   length (doc_attempts env path) = 6 \<and> strip install_guide \<noteq> []"
  by (auto simp: read_text_from_any_file_def Let_def ext_literals_distinct read_doc_def
      doc_attempts_def install_guide_not_blank untested_failure_def is_failure_def
      known_failures_win32com_def known_failures_antiword_def known_failures_catdoc_def
      known_failures_unoconv_def known_failures_textract_def split: sum.splits)

lemma prefix_facts:
  "startswith s_antiword_missing p_antiword_missing"
  "startswith s_catdoc_missing p_catdoc_missing"
  "startswith s_unoconv_missing p_unoconv_missing"
  "startswith s_textract_unavailable p_textract_unavailable"
  "\<not> startswith (asc ''text'') p_catdoc_missing"
  "\<not> startswith (asc ''text'') p_catdoc_failed"
  "\<not> startswith (asc ''text'') p_catdoc_timeout"
  "\<not> startswith (asc ''text'') p_catdoc_error"
  "\<not> startswith s_antiword_missing p_antiword_timeout"
  "\<not> startswith s_antiword_missing p_antiword_error"
  "\<not> startswith s_catdoc_missing p_catdoc_timeout"
  "\<not> startswith s_catdoc_missing p_catdoc_error"
  "\<not> startswith s_unoconv_missing p_unoconv_unavailable"
  "\<not> startswith s_unoconv_missing p_unoconv_timeout"
  "\<not> startswith s_unoconv_missing p_unoconv_error"
  by (simp_all add: s_antiword_missing_def p_antiword_missing_def s_catdoc_missing_def
      p_catdoc_missing_def s_unoconv_missing_def p_unoconv_missing_def
      s_textract_unavailable_def p_textract_unavailable_def p_catdoc_failed_def
      p_catdoc_timeout_def p_catdoc_error_def p_antiword_timeout_def p_antiword_error_def
      p_unoconv_unavailable_def p_unoconv_timeout_def p_unoconv_error_def asc_def)

theorem read_doc_first_accepted_witness:
  "py_lower (path_ext (asc ''a.doc'')) = asc ''.doc'' \<and>
   read_text_from_any_file
     (bare_env\<lparr>run := (\<lambda>cmd. if cmd = [asc ''catdoc'', asc ''a.doc''] then Inr (0, asc ''text'', [])
                         else Inl (FileNotFoundError (hd cmd)))\<rparr>) (asc ''a.doc'') =
     Inr (asc ''text'') \<and>
   read_text_from_any_file bare_env (asc ''a.doc'') = Inr (strip install_guide)"
proof -
  let ?env = "bare_env\<lparr>run := (\<lambda>cmd. if cmd = [asc ''catdoc'', asc ''a.doc''] then Inr (0, asc ''text'', [])
                         else Inl (FileNotFoundError (hd cmd)))\<rparr>"
  have e: "py_lower (path_ext (asc ''a.doc'')) = asc ''.doc''"
    by (simp add: py_lower_def path_ext_def path_basename_def asc_def Let_def)
  have n: "asc ''antiword'' \<noteq> asc ''catdoc''" "asc ''unoconv'' \<noteq> asc ''catdoc''"
    by (simp_all add: asc_def)
  have r1: "read_doc_file_with_antiword ?env (asc ''a.doc'') = s_antiword_missing"
    "read_doc_file_with_catdoc ?env (asc ''a.doc'') = asc ''text''"
    "read_doc_file_with_unoconv ?env (asc ''a.doc'') = s_unoconv_missing"
    by (simp_all add: bare_env_def read_doc_file_with_antiword_def read_doc_file_with_catdoc_def
        read_doc_file_with_unoconv_def unoconv_except_def n)
  have r2: "read_doc_file_with_antiword bare_env (asc ''a.doc'') = s_antiword_missing"
    "read_doc_file_with_catdoc bare_env (asc ''a.doc'') = s_catdoc_missing"
    "read_doc_file_with_unoconv bare_env (asc ''a.doc'') = s_unoconv_missing"
    "read_doc_file_with_textract bare_env (asc ''a.doc'') = s_textract_unavailable"
    by (simp_all add: bare_env_def read_doc_file_with_antiword_def read_doc_file_with_catdoc_def
        read_doc_file_with_unoconv_def unoconv_except_def read_doc_file_with_textract_def)
  have f1: "win32_available ?env = False" "subprocess_available ?env = True"
    and f2: "win32_available bare_env = False" "subprocess_available bare_env = True"
      "docx_installed bare_env = False"
    by (simp_all add: bare_env_def)
  have u1: "\<not> untested_failure ?env (asc ''a.doc'')"
    unfolding untested_failure_def r1 by (simp add: is_failure_def prefix_facts)
  have u2: "\<not> untested_failure bare_env (asc ''a.doc'')"
    unfolding untested_failure_def r2 by (simp add: is_failure_def prefix_facts)
  have a: "List.find fst (doc_attempts ?env (asc ''a.doc'')) = Some (True, asc ''text'')"
    unfolding doc_attempts_def r1 f1
    by (simp add: is_failure_def known_failures_antiword_def known_failures_catdoc_def
        prefix_facts)
  have b: "List.find fst (doc_attempts bare_env (asc ''a.doc'')) = None"
    unfolding doc_attempts_def r2 f2
    by (simp add: is_failure_def known_failures_antiword_def known_failures_catdoc_def
        known_failures_unoconv_def known_failures_textract_def prefix_facts)
  from read_doc_first_accepted [OF e u1] read_doc_first_accepted [OF e u2] e
  show ?thesis
    by (simp add: a b)
qed

text \<open>
  What the amended statement leaves open: where \<open>unoconv --version\<close> exits with code 1,
  the message that \<open>unoconv\<close> is not usable passes the two tests of the branch and is
  returned as the text of the document, though \<open>textract\<close> would have read it.
\<close>

lemma read_doc_untested_message_returned:
  "read_text_from_any_file
     (bare_env\<lparr>run := (\<lambda>cmd. if cmd = [asc ''unoconv'', asc ''--version''] then Inr (1, [], [])
                         else Inl (FileNotFoundError (hd cmd))),
               textract_process := (\<lambda>p. Inr (asc ''text''))\<rparr>) (asc ''a.doc'') =
     Inr s_unoconv_unavailable"
proof -
  have e: "py_lower (path_ext (asc ''a.doc'')) = asc ''.doc''"
    by (simp add: py_lower_def path_ext_def path_basename_def asc_def Let_def)
  have n: "asc ''antiword'' \<noteq> asc ''unoconv''" "asc ''catdoc'' \<noteq> asc ''unoconv''"
    by (simp_all add: asc_def)
  have p: "\<not> startswith s_unoconv_unavailable p_unoconv_missing"
    "\<not> startswith s_unoconv_unavailable p_unoconv_failed"
    by (simp_all add: s_unoconv_unavailable_def p_unoconv_missing_def p_unoconv_failed_def asc_def)
  show ?thesis
    using p
    by (simp add: read_text_from_any_file_def Let_def e ext_literals_distinct read_doc_def
        read_doc_file_with_antiword_def read_doc_file_with_catdoc_def
        read_doc_file_with_unoconv_def bare_env_def n prefix_facts)
qed

section \<open>The thread pool\<close>

lemma read_single_file_path: "read_single_file env x = (fp, n, c) \<Longrightarrow> fp = x"
  by (auto simp: read_single_file_def split: sum.splits prod.splits)

lemma mset_remove_nth:
  "i < length xs \<Longrightarrow> mset (take i xs @ drop (Suc i) xs) + {#xs ! i#} = mset xs"
proof -
  assume "i < length xs"
  then have "xs = take i xs @ xs ! i # drop (Suc i) xs"
    by (simp add: id_take_nth_drop)
  then have "mset xs = mset (take i xs @ xs ! i # drop (Suc i) xs)"
    by simp
  then show ?thesis by simp
qed

lemma pool_step_invariant:
  assumes "pool_step p q"
    and "mset (pending p) + mset (running p) + mset (finished p) = M"
    and "dom (results p) = set (finished p)"
    and "length (running p) \<le> MAX_CONCURRENT_FILES"
    and "\<forall>fp\<in>set (finished p). \<exists>env. results p fp =
            Some (snd (snd (read_single_file env fp)), fst (snd (read_single_file env fp)))"
  shows "mset (pending q) + mset (running q) + mset (finished q) = M \<and>
         dom (results q) = set (finished q) \<and>
         length (running q) \<le> MAX_CONCURRENT_FILES \<and>
         (\<forall>fp\<in>set (finished q). \<exists>env. results q fp =
            Some (snd (snd (read_single_file env fp)), fst (snd (read_single_file env fp))))"
  using assms(1)
proof (cases rule: pool_step.cases)
  case (take_task fp rest)
  have a: "mset (pending q) + mset (running q) + mset (finished q) = M"
    using assms(2) by (simp add: take_task(1,2))
  have b: "dom (results q) = set (finished q)"
    using assms(3) by (simp add: take_task(1))
  have c: "length (running q) \<le> MAX_CONCURRENT_FILES"
    using take_task(3) by (simp add: take_task(1))
  have d: "\<forall>x\<in>set (finished q). \<exists>env. results q x =
            Some (snd (snd (read_single_file env x)), fst (snd (read_single_file env x)))"
    using assms(5) by (simp add: take_task(1))
  show ?thesis
    by (intro conjI a b c d)
next
  case (complete_task i env fp n c)
  from read_single_file_path [OF complete_task(3)] have fp: "fp = running p ! i" .
  from mset_remove_nth [OF complete_task(2)] fp
  have m: "mset (running p) = mset (take i (running p) @ drop (Suc i) (running p)) + {#fp#}"
    by simp
  have "mset (pending p) + (mset (take i (running p) @ drop (Suc i) (running p)) + {#fp#}) +
          mset (finished p) = M"
    using assms(2) unfolding m [symmetric] .
  then have a: "mset (pending q) + mset (running q) + mset (finished q) = M"
    by (simp add: complete_task(1))
  have b: "dom (results q) = set (finished q)"
    using assms(3) by (simp add: complete_task(1))
  have "length (take i (running p) @ drop (Suc i) (running p)) \<le> length (running p)"
    by simp
  with assms(4) have c: "length (running q) \<le> MAX_CONCURRENT_FILES"
    unfolding complete_task(1) by simp
  have d: "\<forall>x\<in>set (finished q). \<exists>env. results q x =
            Some (snd (snd (read_single_file env x)), fst (snd (read_single_file env x)))"
  proof
    fix x assume x: "x \<in> set (finished q)"
    show "\<exists>env. results q x =
            Some (snd (snd (read_single_file env x)), fst (snd (read_single_file env x)))"
    proof (cases "x = fp")
      case True
      with complete_task(3) fp have "read_single_file env x = (x, n, c)" by simp
      then have "results q x =
            Some (snd (snd (read_single_file env x)), fst (snd (read_single_file env x)))"
        using True by (simp add: complete_task(1))
      then show ?thesis by (rule exI)
    next
      case False
      with x have xp: "x \<in> set (finished p)" by (simp add: complete_task(1))
      from assms(5) xp have "\<exists>env. results p x =
            Some (snd (snd (read_single_file env x)), fst (snd (read_single_file env x)))"
        by (rule bspec)
      with False show ?thesis by (simp add: complete_task(1))
    qed
  qed
  show ?thesis
    by (intro conjI a b c d)
qed

lemma pool_reachable_invariant:
  assumes "pool_step\<^sup>*\<^sup>* (submit_all file_paths) p"
  shows "mset (pending p) + mset (running p) + mset (finished p) = mset file_paths \<and>
         dom (results p) = set (finished p) \<and>
         length (running p) \<le> MAX_CONCURRENT_FILES \<and>
         (\<forall>fp\<in>set (finished p). \<exists>env. results p fp =
            Some (snd (snd (read_single_file env fp)), fst (snd (read_single_file env fp))))"
  using assms
proof (induction rule: rtranclp_induct)
  case base
  then show ?case by (simp add: submit_all_def)
next
  case (step y z)
  from pool_step_invariant [OF step.hyps(2)] step.IH show ?case by blast
qed

lemma pool_step_decreases:
  "pool_step p q \<Longrightarrow>
   2 * length (pending q) + length (running q) < 2 * length (pending p) + length (running p)"
  by (induction rule: pool_step.induct) auto

lemma pool_progress:
  assumes "\<not> pool_idle p"
  shows "\<exists>q. pool_step p q"
proof (cases "running p")
  case Nil
  with assms obtain fp rest where pe: "pending p = fp # rest"
    by (cases "pending p") (auto simp: pool_idle_def)
  from Nil have "length (running p) < MAX_CONCURRENT_FILES"
    by (simp add: MAX_CONCURRENT_FILES_def)
  with pe have "pool_step p (p\<lparr>pending := rest, running := running p @ [fp]\<rparr>)"
    by (rule pool_step.take_task)
  then show ?thesis by (rule exI)
next
  case (Cons x xs)
  then have i: "0 < length (running p)" by simp
  obtain fp n c where r: "read_single_file bare_env (running p ! 0) = (fp, n, c)"
    by (cases "read_single_file bare_env (running p ! 0)") auto
  from i r have "pool_step p (p\<lparr>running := take 0 (running p) @ drop (Suc 0) (running p),
                     finished := finished p @ [fp],
                     results := (results p)(fp \<mapsto> (c, n))\<rparr>)"
    by (rule pool_step.complete_task)
  then show ?thesis by (rule exI)
qed

lemma run_in_order_steps:
  "running p = [] \<Longrightarrow> pending p = ps \<Longrightarrow>
   pool_step\<^sup>*\<^sup>* p (run_in_order env ps p) \<and> pool_idle (run_in_order env ps p)"
proof (induction ps arbitrary: p)
  case Nil
  then show ?case by (simp add: pool_idle_def)
next
  case (Cons fp rest)
  let ?p1 = "p\<lparr>pending := rest, running := running p @ [fp]\<rparr>"
  let ?p2 = "p\<lparr>pending := rest, finished := finished p @ [fp],
          results := (results p)(fp \<mapsto> (snd (snd (read_single_file env fp)),
                                           fst (snd (read_single_file env fp))))\<rparr>"
  have l: "length (running p) < MAX_CONCURRENT_FILES"
    using Cons.prems(1) by (simp add: MAX_CONCURRENT_FILES_def)
  from Cons.prems(2) l have s1: "pool_step p ?p1"
    by (rule pool_step.take_task)
  obtain n c where r: "read_single_file env fp = (fp, n, c)"
    using read_single_file_path [of env fp]
    by (cases "read_single_file env fp") auto
  have i: "0 < length (running ?p1)" by simp
  have r': "read_single_file env (running ?p1 ! 0) = (fp, n, c)"
    using Cons.prems(1) r by simp
  from i r' have "pool_step ?p1 (?p1\<lparr>running := take 0 (running ?p1) @ drop (Suc 0) (running ?p1),
                     finished := finished ?p1 @ [fp],
                     results := (results ?p1)(fp \<mapsto> (c, n))\<rparr>)"
    by (rule pool_step.complete_task)
  moreover have "?p1\<lparr>running := take 0 (running ?p1) @ drop (Suc 0) (running ?p1),
                     finished := finished ?p1 @ [fp],
                     results := (results ?p1)(fp \<mapsto> (c, n))\<rparr> = ?p2"
    using Cons.prems(1) r by simp
  ultimately have s2: "pool_step ?p1 ?p2" by simp
  have "running ?p2 = []" "pending ?p2 = rest"
    using Cons.prems(1) by simp_all
  from Cons.IH [OF this] have t: "pool_step\<^sup>*\<^sup>* ?p2 (run_in_order env rest ?p2)"
    and idle: "pool_idle (run_in_order env rest ?p2)"
    by simp_all
  from s1 have "pool_step\<^sup>*\<^sup>* p ?p1" by (rule r_into_rtranclp)
  also from s2 have "pool_step\<^sup>*\<^sup>* ?p1 ?p2" by (rule r_into_rtranclp)
  also note t
  finally have "pool_step\<^sup>*\<^sup>* p (run_in_order env rest ?p2)" .
  with idle show ?case by simp
qed

text \<open>
  C6. The paths are submitted to the pool of five workers, and the pool runs in any
  order: at every moment at most five reads are running, a pool that is not idle can
  always take a step, and every step brings the end nearer, so every run ends; some
  run does end. Once the pool is idle the order of completion is a permutation of the
  submitted paths, the result mapping has exactly the submitted paths as keys (for
  pairwise distinct paths: exactly as many entries as paths), and each path maps to
  the content and size of a read of that very path.
\<close>

theorem pool_results_complete:
  assumes "pool_step\<^sup>*\<^sup>* (submit_all file_paths) p"
  shows "length (running p) \<le> MAX_CONCURRENT_FILES \<and>
         (\<not> pool_idle p \<longrightarrow> (\<exists>q. pool_step p q)) \<and>
         (\<forall>q. pool_step p q \<longrightarrow>
            2 * length (pending q) + length (running q) <
            2 * length (pending p) + length (running p)) \<and>
         (\<exists>q. pool_step\<^sup>*\<^sup>* (submit_all file_paths) q \<and> pool_idle q) \<and>
         (pool_idle p \<longrightarrow>
            mset (finished p) = mset file_paths \<and>
            dom (results p) = set file_paths \<and>
            (distinct file_paths \<longrightarrow> card (dom (results p)) = length file_paths) \<and>
            (\<forall>fp\<in>set file_paths. \<exists>env. results p fp =
               Some (snd (snd (read_single_file env fp)), fst (snd (read_single_file env fp)))))"
proof -
  note inv = pool_reachable_invariant [OF assms]
  have bounded: "length (running p) \<le> MAX_CONCURRENT_FILES"
    using inv by blast
  have progress: "\<not> pool_idle p \<longrightarrow> (\<exists>q. pool_step p q)"
    using pool_progress by blast
  have decreases: "\<forall>q. pool_step p q \<longrightarrow>
            2 * length (pending q) + length (running q) <
            2 * length (pending p) + length (running p)"
    using pool_step_decreases by blast
  have ends: "\<exists>q. pool_step\<^sup>*\<^sup>* (submit_all file_paths) q \<and> pool_idle q"
    using run_in_order_steps [of "submit_all file_paths" file_paths bare_env]
    by (auto simp: submit_all_def)
  have final: "mset (finished p) = mset file_paths \<and>
            dom (results p) = set file_paths \<and>
            (distinct file_paths \<longrightarrow> card (dom (results p)) = length file_paths) \<and>
            (\<forall>fp\<in>set file_paths. \<exists>env. results p fp =
               Some (snd (snd (read_single_file env fp)), fst (snd (read_single_file env fp))))"
    if idle: "pool_idle p"
  proof -
    from inv idle have m: "mset (finished p) = mset file_paths"
      by (simp add: pool_idle_def)
    then have s: "set (finished p) = set file_paths"
      by (rule mset_eq_setD)
    from inv s have d: "dom (results p) = set file_paths" by simp
    have "card (dom (results p)) = length file_paths" if "distinct file_paths"
      using that d by (simp add: distinct_card)
    with m d inv s show ?thesis by auto
  qed
  from bounded progress decreases ends final show ?thesis by blast
qed

theorem pool_results_complete_witness:
  "pool_step\<^sup>*\<^sup>*
     (submit_all [asc ''a.txt'', asc ''b.txt'', asc ''c.txt'', asc ''d.txt'', asc ''e.txt'', asc ''f.txt''])
     (run_in_order bare_env
        [asc ''a.txt'', asc ''b.txt'', asc ''c.txt'', asc ''d.txt'', asc ''e.txt'', asc ''f.txt'']
        (submit_all [asc ''a.txt'', asc ''b.txt'', asc ''c.txt'', asc ''d.txt'', asc ''e.txt'', asc ''f.txt''])) \<and>
   pool_idle
     (run_in_order bare_env
        [asc ''a.txt'', asc ''b.txt'', asc ''c.txt'', asc ''d.txt'', asc ''e.txt'', asc ''f.txt'']
        (submit_all [asc ''a.txt'', asc ''b.txt'', asc ''c.txt'', asc ''d.txt'', asc ''e.txt'', asc ''f.txt''])) \<and>
   distinct [asc ''a.txt'', asc ''b.txt'', asc ''c.txt'', asc ''d.txt'', asc ''e.txt'', asc ''f.txt''] \<and>
   MAX_CONCURRENT_FILES <
     length [asc ''a.txt'', asc ''b.txt'', asc ''c.txt'', asc ''d.txt'', asc ''e.txt'', asc ''f.txt''] \<and>
   card (dom (results
     (run_in_order bare_env
        [asc ''a.txt'', asc ''b.txt'', asc ''c.txt'', asc ''d.txt'', asc ''e.txt'', asc ''f.txt'']
        (submit_all [asc ''a.txt'', asc ''b.txt'', asc ''c.txt'', asc ''d.txt'', asc ''e.txt'', asc ''f.txt''])))) = 6"
proof -
  let ?ps = "[asc ''a.txt'', asc ''b.txt'', asc ''c.txt'', asc ''d.txt'', asc ''e.txt'', asc ''f.txt'']"
  have r: "pool_step\<^sup>*\<^sup>* (submit_all ?ps) (run_in_order bare_env ?ps (submit_all ?ps))"
    and i: "pool_idle (run_in_order bare_env ?ps (submit_all ?ps))"
    using run_in_order_steps [of "submit_all ?ps" ?ps bare_env]
    by (simp_all add: submit_all_def)
  have d: "distinct ?ps" by (simp add: asc_def)
  have k: "MAX_CONCURRENT_FILES < length ?ps" by (simp add: MAX_CONCURRENT_FILES_def)
  from pool_results_complete [OF r] i d
  have "card (dom (results (run_in_order bare_env ?ps (submit_all ?ps)))) = length ?ps"
    by blast
  then have c: "card (dom (results (run_in_order bare_env ?ps (submit_all ?ps)))) = 6"
    by simp
  show ?thesis
    by (intro conjI r i d k c)
qed

section \<open>The directory scan\<close>






















end
